theory Spec2Isabelle
  imports Complex_Main "HOL-Library.Log_Nat"
begin

text \<open>
  A model of \<open>diffusion/denoise_diffusion.py\<close>: the constructor of
  \<open>DenoiseDiffusion\<close>, the forward process \<open>q_xt_x0\<close>, and the training loss of
  \<open>DenoiseDiffusion\<close> and of \<open>DMDenoiseDiffusion\<close>. The torch operations the source
  calls are written out first; \<open>save\<close>, \<open>load\<close> and \<open>__repr__\<close> and the placement of
  tensors on a device are not modelled.
\<close>

section \<open>Tensors\<close>

text \<open>
  The source computes on torch tensors. A tensor is modelled by its shape and the value
  it holds at every multi-index, a real number. The arithmetic of the tensor operations
  is taken exact; rounding is written out for the schedule constants, below. Only the
  values at the indices inside the shape are meaningful.
\<close>

record tensor =
  shape :: "nat list"
  elem :: "nat list \<Rightarrow> real"

datatype error =
    AssertionError
  | ValueError string
  | TypeError
  | IndexError
  | AttributeError
  | RuntimeError

text \<open>The result of a reduction to a scalar; the mean of no elements is \<open>0 / 0\<close>, NaN.\<close>

datatype scalar = Finite real | NaN

definition valid_index :: "nat list \<Rightarrow> nat list \<Rightarrow> bool" where
  "valid_index s idx = list_all2 (\<lambda>i n. i < n) idx s"

definition numel :: "nat list \<Rightarrow> nat" where
  "numel s = prod_list s"

fun indices :: "nat list \<Rightarrow> nat list list" where
  "indices [] = [[]]"
| "indices (n # ns) = concat (map (\<lambda>i. map ((#) i) (indices ns)) [0..<n])"

subsection \<open>Broadcasting\<close>

text \<open>
  torch aligns the shapes of two operands at their last axis, reads a missing leading
  axis as extent 1, and lets an axis of extent 1 follow the other operand's extent.
\<close>

definition pad :: "nat \<Rightarrow> nat list \<Rightarrow> nat list" where
  "pad n s = replicate (n - length s) 1 @ s"

fun broadcast_dims :: "nat list \<Rightarrow> nat list \<Rightarrow> nat list option" where
  "broadcast_dims [] [] = Some []"
| "broadcast_dims (x # xs) (y # ys) =
     (if x = y \<or> y = 1 then map_option ((#) x) (broadcast_dims xs ys)
      else if x = 1 then map_option ((#) y) (broadcast_dims xs ys)
      else None)"
| "broadcast_dims _ _ = None"

definition broadcast_shapes :: "nat list \<Rightarrow> nat list \<Rightarrow> nat list option" where
  "broadcast_shapes a b =
     (let n = max (length a) (length b) in broadcast_dims (pad n a) (pad n b))"

text \<open>The index at which an operand of shape \<open>s\<close> is read for the result index \<open>idx\<close>.\<close>

definition bindex :: "nat list \<Rightarrow> nat list \<Rightarrow> nat list" where
  "bindex s idx =
     drop (length idx - length s)
       (map2 (\<lambda>n i. if n = 1 then 0 else i) (pad (length idx) s) idx)"

definition tbin :: "(real \<Rightarrow> real \<Rightarrow> real) \<Rightarrow> tensor \<Rightarrow> tensor \<Rightarrow> error + tensor" where
  "tbin f a b =
     (case broadcast_shapes (shape a) (shape b) of
        None \<Rightarrow> Inl RuntimeError
      | Some s \<Rightarrow>
          Inr \<lparr>shape = s,
               elem = \<lambda>idx. f (elem a (bindex (shape a) idx)) (elem b (bindex (shape b) idx))\<rparr>)"

text \<open>An in-place operation \<open>a op= b\<close> writes into \<open>a\<close>, so the result must have the shape of \<open>a\<close>.\<close>

definition tbin_inplace :: "(real \<Rightarrow> real \<Rightarrow> real) \<Rightarrow> tensor \<Rightarrow> tensor \<Rightarrow> error + tensor" where
  "tbin_inplace f a b =
     (case tbin f a b of
        Inl e \<Rightarrow> Inl e
      | Inr r \<Rightarrow> if shape r = shape a then Inr r else Inl RuntimeError)"

definition tmap :: "(real \<Rightarrow> real) \<Rightarrow> tensor \<Rightarrow> tensor" where
  "tmap f a = \<lparr>shape = shape a, elem = \<lambda>idx. f (elem a idx)\<rparr>"

definition ones :: "nat list \<Rightarrow> tensor" where
  "ones s = \<lparr>shape = s, elem = \<lambda>idx. 1\<rparr>"

text \<open>
  \<open>torch.cat([a, b], dim=-1)\<close>: the operands agree on every axis but the last. A
  one-dimensional empty tensor is skipped, and a zero-dimensional one is refused.
\<close>

definition cat_last :: "tensor \<Rightarrow> tensor \<Rightarrow> error + tensor" where
  "cat_last a b =
     (if shape a = [] \<or> shape b = [] then Inl RuntimeError
      else if shape a = [0] then Inr b
      else if shape b = [0] then Inr a
      else if butlast (shape a) = butlast (shape b) then
        Inr \<lparr>shape = butlast (shape a) @ [last (shape a) + last (shape b)],
             elem = \<lambda>idx. if last idx < last (shape a) then elem a idx
                           else elem b (butlast idx @ [last idx - last (shape a)])\<rparr>
      else Inl RuntimeError)"

text \<open>The stop of the Python slice \<open>[:h]\<close> on an axis of extent \<open>n\<close>.\<close>

definition slice_stop :: "int option \<Rightarrow> nat \<Rightarrow> nat" where
  "slice_stop h n =
     (case h of
        None \<Rightarrow> n
      | Some k \<Rightarrow> if k < 0 then nat (max 0 (int n + k)) else min (nat k) n)"

definition slice_shape :: "nat list \<Rightarrow> int option \<Rightarrow> error + nat list" where
  "slice_shape s h =
     (case s of
        b # l # ds \<Rightarrow> Inr (b # slice_stop h l # ds)
      | _ \<Rightarrow> Inl IndexError)"

text \<open>
  \<open>xt[:, :h] = x0[:, :h]\<close>: both sides are sliced on the second axis, and the slice of
  \<open>x0\<close> is copied over the slice of \<open>xt\<close>. The two slices have the same shape wherever
  the source reaches this statement; a source slice of another shape is refused.
\<close>

definition assign_prefix :: "tensor \<Rightarrow> tensor \<Rightarrow> int option \<Rightarrow> error + tensor" where
  "assign_prefix xt x0 h =
     (case slice_shape (shape x0) h of
        Inl e \<Rightarrow> Inl e
      | Inr src \<Rightarrow>
          (case slice_shape (shape xt) h of
             Inl e \<Rightarrow> Inl e
           | Inr dst \<Rightarrow>
               if src = dst then
                 Inr \<lparr>shape = shape xt,
                      elem = \<lambda>idx. (case idx of
                                b # p # rest \<Rightarrow>
                                  if p < slice_stop h (shape xt ! 1) then elem x0 idx
                                  else elem xt idx
                              | _ \<Rightarrow> elem xt idx)\<rparr>
               else Inl RuntimeError))"

definition mean_all :: "tensor \<Rightarrow> scalar" where
  "mean_all a =
     (if numel (shape a) = 0 then NaN
      else Finite (sum_list (map (elem a) (indices (shape a))) / real (numel (shape a))))"

text \<open>
  \<open>F.l1_loss\<close> and \<open>F.mse_loss\<close> with the default mean reduction: the operands are
  broadcast against each other, then the elementwise loss is averaged.
\<close>

definition l1_loss :: "tensor \<Rightarrow> tensor \<Rightarrow> error + scalar" where
  "l1_loss input target =
     (case tbin (\<lambda>a b. \<bar>a - b\<bar>) input target of
        Inl e \<Rightarrow> Inl e
      | Inr d \<Rightarrow> Inr (mean_all d))"

definition mse_loss :: "tensor \<Rightarrow> tensor \<Rightarrow> error + scalar" where
  "mse_loss input target =
     (case tbin (\<lambda>a b. (a - b)\<^sup>2) input target of
        Inl e \<Rightarrow> Inl e
      | Inr d \<Rightarrow> Inr (mean_all d))"

section \<open>Rounding\<close>

text \<open>
  The schedule constants are float32 tensors (torch's default type), and two of the
  statements about them compare the results of different computations, so their
  rounding is written out. A float is the real number it stands for.
  \<open>ieee_round p s\<close> rounds a real to the nearest number with a significand of \<open>p\<close> bits,
  ties to the even significand; \<open>2 ^ s\<close> scales the smallest positive number of the
  format to 1, so that below the normal range the spacing stays at that number (the
  subnormal numbers). Overflow to infinity is not modelled.
\<close>

definition round_even :: "real \<Rightarrow> int" where
  "round_even z =
     (if z - of_int \<lfloor>z\<rfloor> < 1/2 then \<lfloor>z\<rfloor>
      else if 1/2 < z - of_int \<lfloor>z\<rfloor> then \<lfloor>z\<rfloor> + 1
      else if even \<lfloor>z\<rfloor> then \<lfloor>z\<rfloor> else \<lfloor>z\<rfloor> + 1)"

definition ieee_round :: "nat \<Rightarrow> nat \<Rightarrow> real \<Rightarrow> real" where
  "ieee_round p s x =
     (let y = \<bar>x\<bar> * 2 ^ s;
          k = floorlog 2 (nat \<lfloor>y\<rfloor>) - p
      in sgn x * (of_int (round_even (y / 2 ^ k)) * 2 ^ k / 2 ^ s))"

text \<open>float32: 24 bits, smallest positive number \<open>2^-149\<close>; float64: 53 bits, \<open>2^-1074\<close>.\<close>

definition fl32 :: "real \<Rightarrow> real" where
  "fl32 x = ieee_round 24 149 x"

definition fl64 :: "real \<Rightarrow> real" where
  "fl64 x = ieee_round 53 1074 x"

section \<open>Random draws\<close>

text \<open>
  The source draws from torch's global random source. The source of randomness is a
  parameter here: each sampling operation maps the raw draws into its own range and
  shape, so every value of the parameter is a possible outcome, and every outcome is
  the image of some value. Probabilities are not modelled.
\<close>

record rng =
  randint_raw :: "nat \<Rightarrow> nat"
  randn_raw :: "nat list \<Rightarrow> real"
  bernoulli_raw :: "nat \<Rightarrow> bool"

definition torch_randint :: "rng \<Rightarrow> int \<Rightarrow> nat \<Rightarrow> error + int list" where
  "torch_randint g high n =
     (if high \<le> 0 then Inl RuntimeError
      else Inr (map (\<lambda>i. int (randint_raw g i mod nat high)) [0..<n]))"

definition randn_like :: "rng \<Rightarrow> tensor \<Rightarrow> tensor" where
  "randn_like g x = \<lparr>shape = shape x, elem = randn_raw g\<rparr>"

definition bernoulli_sample :: "rng \<Rightarrow> nat \<Rightarrow> tensor" where
  "bernoulli_sample g n =
     \<lparr>shape = [n, 1],
      elem = \<lambda>idx. (case idx of [] \<Rightarrow> 0 | b # _ \<Rightarrow> if bernoulli_raw g b then 1 else 0)\<rparr>"

section \<open>The collaborators\<close>

text \<open>
  The noise predictor is opaque: a capability flag and a function from
  \<open>(xt, t, cond)\<close> to the predicted noise, which may raise.
\<close>

record eps_model =
  use_cond :: bool
  forward :: "tensor \<Rightarrow> int list \<Rightarrow> tensor option \<Rightarrow> error + tensor"

text \<open>
  The schedule generators of \<open>utils.diffusion_utils\<close> are taken as parameters: each maps
  the keyword arguments, \<open>T\<close> and the device to the betas, or raises.
\<close>

record 'k diffusion_utils =
  beta_schedual_linear :: "'k \<Rightarrow> int \<Rightarrow> string \<Rightarrow> error + real list"
  beta_schedual_cosine :: "'k \<Rightarrow> int \<Rightarrow> string \<Rightarrow> error + real list"

text \<open>
  Modelled from the spec: \<open>diffusion_utils.gather\<close> is not among the sources. The spec
  says that for each batch element it selects the constant at the element's timestep,
  in a form that broadcasts over the data dimensions: the result has one entry per
  timestep and extent 1 on each of the remaining \<open>n_dim - 1\<close> axes. An index outside
  the constants is refused.
\<close>

definition gather :: "real list \<Rightarrow> int list \<Rightarrow> nat \<Rightarrow> error + tensor" where
  "gather consts t n_dim =
     (if list_all (\<lambda>i. 0 \<le> i \<and> i < int (length consts)) t then
        Inr \<lparr>shape = length t # replicate (n_dim - 1) 1,
             elem = \<lambda>idx. (case idx of [] \<Rightarrow> 0 | b # _ \<Rightarrow> consts ! nat (t ! b))\<rparr>
      else Inl IndexError)"

section \<open>DenoiseDiffusion\<close>

record process =
  eps_model :: eps_model
  T :: int
  device :: string
  loss_type :: string
  x_shape :: "nat list option"
  beta_schedule :: string
  uncond_mask_dist :: "real option"
  betas :: "real list"
  alphas :: "real list"
  alphas_bar :: "real list"
  alphas_bar_prev :: "real list"

text \<open>
  \<open>torch.cumprod\<close> on a float32 vector, as the CPU kernel computes it: the running
  product \<open>cum_number\<close> starts at 1 and is kept in double precision; each element is
  multiplied into it, and each output is the running product cast to float32.
  \<open>cumprod_acc\<close> is the list of the running products, \<open>cumprod\<close> the list of outputs.
\<close>

fun cumprod_acc :: "real \<Rightarrow> real list \<Rightarrow> real list" where
  "cumprod_acc cum_number [] = []"
| "cumprod_acc cum_number (x # xs) =
     fl64 (cum_number * x) # cumprod_acc (fl64 (cum_number * x)) xs"

definition cumprod :: "real list \<Rightarrow> real list" where
  "cumprod xs = map fl32 (cumprod_acc 1 xs)"

text \<open>
  \<open>dist.Bernoulli(probs=1-uncond_prob)\<close> validates that the probability lies in the
  unit interval; the distribution is kept as its probability.
\<close>

definition Bernoulli :: "real \<Rightarrow> error + real" where
  "Bernoulli probs =
     (if 0 \<le> probs \<and> probs \<le> 1 then Inr probs
      else Inl (ValueError ''Expected parameter probs to satisfy the constraint''))"

text \<open>
  The constructor. Moving the predictor to the device is not modelled. An absent
  \<open>uncond_prob\<close> is \<open>None\<close>. The betas are a float32 tensor, so \<open>1 - self.betas\<close>
  is rounded to float32.
\<close>

definition init ::
  "'k diffusion_utils \<Rightarrow> eps_model \<Rightarrow> real option \<Rightarrow> int \<Rightarrow> string \<Rightarrow> string \<Rightarrow> string \<Rightarrow> 'k
     \<Rightarrow> error + process" where
  "init du model uncond_prob T0 dev lt sched kwargs =
     (if (uncond_prob \<noteq> None) \<noteq> use_cond model then Inl AssertionError
      else
        (case (if use_cond model then
                 (case uncond_prob of
                    None \<Rightarrow> Inl TypeError
                  | Some p \<Rightarrow>
                      (case Bernoulli (1 - p) of
                         Inl e \<Rightarrow> Inl e
                       | Inr d \<Rightarrow> Inr (Some d)))
               else Inr None) of
           Inl e \<Rightarrow> Inl e
         | Inr mask_dist \<Rightarrow>
             (case (if sched = ''linear'' then beta_schedual_linear du kwargs T0 dev
                    else if sched = ''cosine'' then beta_schedual_cosine du kwargs T0 dev
                    else Inl (ValueError (''Unknown beta_schedule: '' @ sched))) of
                Inl e \<Rightarrow> Inl e
              | Inr bs \<Rightarrow>
                  (let als = map (\<lambda>b. fl32 (1 - b)) bs;
                       abar = cumprod als
                   in Inr \<lparr>eps_model = model, T = T0, device = dev, loss_type = lt,
                           x_shape = None, beta_schedule = sched,
                           uncond_mask_dist = mask_dist,
                           betas = bs, alphas = als, alphas_bar = abar,
                           alphas_bar_prev = 1 # butlast abar\<rparr>))))"

text \<open>The forward process \<open>q(x_t | x_0)\<close>.\<close>

definition q_xt_x0 :: "process \<Rightarrow> tensor \<Rightarrow> int list \<Rightarrow> error + tensor \<times> tensor" where
  "q_xt_x0 self x0 t =
     (let n_dim = length (shape x0) in
      case gather (alphas_bar self) t n_dim of
        Inl e \<Rightarrow> Inl e
      | Inr alpha_bar \<Rightarrow>
          (case tbin (*) (tmap sqrt alpha_bar) x0 of
             Inl e \<Rightarrow> Inl e
           | Inr mean \<Rightarrow> Inr (mean, tmap sqrt (tmap (\<lambda>a. 1 - a) alpha_bar))))"

section \<open>The training loss\<close>

text \<open>
  The conditioning tensor is passed by reference and the base variant multiplies it in
  place, so the tensors the caller holds live in a store: an address is a position in
  the list, and a new tensor is put at the end. \<open>cond = None\<close> is the absent address.
  A call returns the process and the store as it leaves them, also when it raises.
\<close>

type_synonym addr = nat
type_synonym store = "tensor list"

definition set_x_shape :: "process \<Rightarrow> tensor \<Rightarrow> process" where
  "set_x_shape self x0 =
     (if x_shape self = None then self\<lparr>x_shape := Some (tl (shape x0))\<rparr> else self)"

text \<open>
  Lines 76 to 81, shared by both variants: the batch size, the timesteps, the forward
  process, the noise and \<open>xt = mean + std * eps\<close>. The result is
  \<open>(batch_size, t, eps, xt)\<close>.
\<close>

definition noisy_sample ::
  "process \<Rightarrow> rng \<Rightarrow> tensor \<Rightarrow> error + nat \<times> int list \<times> tensor \<times> tensor" where
  "noisy_sample self g x0 =
     (case shape x0 of
        [] \<Rightarrow> Inl IndexError
      | batch_size # _ \<Rightarrow>
          (case torch_randint g (T self) batch_size of
             Inl e \<Rightarrow> Inl e
           | Inr t \<Rightarrow>
               (case q_xt_x0 self x0 t of
                  Inl e \<Rightarrow> Inl e
                | Inr (mean, std) \<Rightarrow>
                    (let eps = randn_like g x0 in
                     case tbin (*) std eps of
                       Inl e \<Rightarrow> Inl e
                     | Inr se \<Rightarrow>
                         (case tbin (+) mean se of
                            Inl e \<Rightarrow> Inl e
                          | Inr xt \<Rightarrow> Inr (batch_size, t, eps, xt))))))"

text \<open>
  The dropout of the conditioning, lines 84 to 86 and 143 to 145: when the predictor
  uses the conditioning, a mask is sampled and \<open>cond\<close> is multiplied by it in place.
\<close>

definition uncond_mask :: "process \<Rightarrow> rng \<Rightarrow> nat \<Rightarrow> store \<Rightarrow> addr option \<Rightarrow> store \<times> (error + unit)" where
  "uncond_mask self g batch_size st cond =
     (if use_cond (eps_model self) then
        (case uncond_mask_dist self of
           None \<Rightarrow> (st, Inl AttributeError)
         | Some probs \<Rightarrow>
             (let mask = bernoulli_sample g batch_size in
              case cond of
                None \<Rightarrow> (st, Inl TypeError)
              | Some a \<Rightarrow>
                  (case tbin_inplace (*) (st ! a) mask of
                     Inl e \<Rightarrow> (st, Inl e)
                   | Inr c \<Rightarrow> (st[a := c], Inr ()))))
      else (st, Inr ()))"

text \<open>The choice of the loss, lines 89 to 96 and 148 to 155.\<close>

definition reduce_loss :: "process \<Rightarrow> tensor \<Rightarrow> tensor \<Rightarrow> error + scalar" where
  "reduce_loss self pred_eps eps =
     (if loss_type self = ''l1'' then l1_loss pred_eps eps
      else if loss_type self = ''l2'' then mse_loss pred_eps eps
      else Inl (ValueError (''Unknown loss_type: '' @ loss_type self)))"

text \<open>
  What \<open>DenoiseDiffusion.loss\<close> does before it calls the predictor: the state it leaves
  and either the error raised or the arguments \<open>(xt, t, cond)\<close> of the call together
  with the noise \<open>eps\<close>.
\<close>

definition loss_args ::
  "process \<Rightarrow> store \<Rightarrow> rng \<Rightarrow> tensor \<Rightarrow> addr option
     \<Rightarrow> (process \<times> store) \<times> (error + (tensor \<times> int list \<times> addr option) \<times> tensor)" where
  "loss_args self st g x0 cond =
     (let self1 = set_x_shape self x0 in
      case noisy_sample self1 g x0 of
        Inl e \<Rightarrow> ((self1, st), Inl e)
      | Inr (batch_size, t, eps, xt) \<Rightarrow>
          (case uncond_mask self1 g batch_size st cond of
             (st1, Inl e) \<Rightarrow> ((self1, st1), Inl e)
           | (st1, Inr _) \<Rightarrow> ((self1, st1), Inr ((xt, t, cond), eps))))"

definition call_and_reduce ::
  "(process \<times> store) \<times> (error + (tensor \<times> int list \<times> addr option) \<times> tensor)
     \<Rightarrow> (process \<times> store) \<times> (error + scalar)" where
  "call_and_reduce r =
     (case r of
        (w, Inl e) \<Rightarrow> (w, Inl e)
      | ((self1, st1), Inr ((xt, t, cond), eps)) \<Rightarrow>
          (case forward (eps_model self1) xt t (map_option ((!) st1) cond) of
             Inl e \<Rightarrow> ((self1, st1), Inl e)
           | Inr pred_eps \<Rightarrow> ((self1, st1), reduce_loss self1 pred_eps eps)))"

definition loss ::
  "process \<Rightarrow> store \<Rightarrow> rng \<Rightarrow> tensor \<Rightarrow> addr option \<Rightarrow> (process \<times> store) \<times> (error + scalar)" where
  "loss self st g x0 cond = call_and_reduce (loss_args self st g x0 cond)"

section \<open>DMDenoiseDiffusion\<close>

definition DM_init ::
  "'k diffusion_utils \<Rightarrow> eps_model \<Rightarrow> real option \<Rightarrow> int \<Rightarrow> string \<Rightarrow> string \<Rightarrow> string \<Rightarrow> 'k
     \<Rightarrow> error + process" where
  "DM_init du model uncond_prob T0 dev lt sched kwargs =
     init du model uncond_prob T0 dev lt sched kwargs"

text \<open>
  Line 140: \<open>cond = torch.cat([cond, torch.ones(batch_size, 1)], dim=-1)\<close>. The
  result is a new tensor, and the local name \<open>cond\<close> refers to it from here on.
\<close>

definition append_flag :: "nat \<Rightarrow> store \<Rightarrow> addr option \<Rightarrow> error + store \<times> addr" where
  "append_flag batch_size st cond =
     (case cond of
        None \<Rightarrow> Inl TypeError
      | Some a \<Rightarrow>
          (case cat_last (st ! a) (ones [batch_size, 1]) of
             Inl e \<Rightarrow> Inl e
           | Inr c \<Rightarrow> Inr (st @ [c], length st)))"

definition DM_loss_args ::
  "process \<Rightarrow> store \<Rightarrow> rng \<Rightarrow> tensor \<Rightarrow> addr option \<Rightarrow> int option
     \<Rightarrow> (process \<times> store) \<times> (error + (tensor \<times> int list \<times> addr option) \<times> tensor)" where
  "DM_loss_args self st g x0 cond preserved_horizon =
     (let self1 = set_x_shape self x0 in
      case noisy_sample self1 g x0 of
        Inl e \<Rightarrow> ((self1, st), Inl e)
      | Inr (batch_size, t, eps, xt0) \<Rightarrow>
          (case assign_prefix xt0 x0 preserved_horizon of
             Inl e \<Rightarrow> ((self1, st), Inl e)
           | Inr xt \<Rightarrow>
               (case append_flag batch_size st cond of
                  Inl e \<Rightarrow> ((self1, st), Inl e)
                | Inr (st1, cond1) \<Rightarrow>
                    (case uncond_mask self1 g batch_size st1 (Some cond1) of
                       (st2, Inl e) \<Rightarrow> ((self1, st2), Inl e)
                     | (st2, Inr _) \<Rightarrow> ((self1, st2), Inr ((xt, t, Some cond1), eps))))))"

definition DM_loss ::
  "process \<Rightarrow> store \<Rightarrow> rng \<Rightarrow> tensor \<Rightarrow> addr option \<Rightarrow> int option
     \<Rightarrow> (process \<times> store) \<times> (error + scalar)" where
  "DM_loss self st g x0 cond preserved_horizon =
     call_and_reduce (DM_loss_args self st g x0 cond preserved_horizon)"

section \<open>The reductions as the spec words them\<close>

text \<open>
  The spec names the two losses by what they compute: the mean, over all positions, of
  the absolute error and of the squared error between the predicted and the sampled
  noise. These two definitions follow those words; \<open>l1_loss\<close> and \<open>mse_loss\<close> above
  follow the torch functions the source calls.
\<close>

definition mean_absolute_error :: "tensor \<Rightarrow> tensor \<Rightarrow> scalar" where
  "mean_absolute_error pred target =
     (if numel (shape target) = 0 then NaN
      else Finite ((\<Sum>idx\<leftarrow>indices (shape target). \<bar>elem pred idx - elem target idx\<bar>)
                   / real (numel (shape target))))"

definition mean_squared_error :: "tensor \<Rightarrow> tensor \<Rightarrow> scalar" where
  "mean_squared_error pred target =
     (if numel (shape target) = 0 then NaN
      else Finite ((\<Sum>idx\<leftarrow>indices (shape target). (elem pred idx - elem target idx)\<^sup>2)
                   / real (numel (shape target))))"

section \<open>Example values\<close>

text \<open>
  A two-step process whose predictor uses the conditioning and returns its input, the
  same process with a predictor that does not use it, a batch of one sequence of length
  two, a store that holds one conditioning of width one, and a random source that draws
  timestep 0, noise 0 and the mask bit 0 everywhere.
\<close>

definition ex_utils :: "unit diffusion_utils" where
  "ex_utils = \<lparr>beta_schedual_linear = \<lambda>kw n dev. Inr (take (nat n) [1/4, 1/2]),
               beta_schedual_cosine = \<lambda>kw n dev. Inr (take (nat n) [1/8, 1/4])\<rparr>"

definition ex_model :: eps_model where
  "ex_model = \<lparr>use_cond = True, forward = \<lambda>xt t c. Inr xt\<rparr>"

definition ex_proc :: process where
  "ex_proc = \<lparr>eps_model = ex_model, T = 2, device = ''cpu'', loss_type = ''l2'',
              x_shape = None, beta_schedule = ''linear'', uncond_mask_dist = Some (3/4),
              betas = [1/4, 1/2], alphas = [3/4, 1/2], alphas_bar = [3/4, 3/8],
              alphas_bar_prev = [1, 3/4]\<rparr>"

definition ex_x0 :: tensor where
  "ex_x0 = \<lparr>shape = [1, 2], elem = \<lambda>idx. if idx = [0, 0] then 2 else 3\<rparr>"

definition ex_cond :: tensor where
  "ex_cond = \<lparr>shape = [1, 1], elem = \<lambda>idx. 5\<rparr>"

definition ex_st :: store where
  "ex_st = [ex_cond]"

definition ex_g :: rng where
  "ex_g = \<lparr>randint_raw = \<lambda>i. 0, randn_raw = \<lambda>idx. 0, bernoulli_raw = \<lambda>i. False\<rparr>"

definition ex_proc_nc :: process where
  "ex_proc_nc = ex_proc\<lparr>eps_model := ex_model\<lparr>use_cond := False\<rparr>, uncond_mask_dist := None\<rparr>"



section \<open>Broadcasting lemmas\<close>

lemma pad_same: "length s = n \<Longrightarrow> pad n s = s"
  by (simp add: pad_def)

lemma broadcast_dims_ones: "length ds = k \<Longrightarrow> broadcast_dims (replicate k (Suc 0)) ds = Some ds"
  by (induction ds arbitrary: k) auto

lemma broadcast_dims_same: "broadcast_dims s s = Some s"
  by (induction s) auto

lemma broadcast_shapes_unit:
  "length ds = k \<Longrightarrow> broadcast_shapes (b # replicate k (Suc 0)) (b # ds) = Some (b # ds)"
  by (simp add: broadcast_shapes_def pad_same broadcast_dims_ones)

lemma broadcast_shapes_same: "broadcast_shapes s s = Some s"
  by (simp add: broadcast_shapes_def pad_same broadcast_dims_same)

lemma valid_index_length: "valid_index s idx \<Longrightarrow> length idx = length s"
  by (simp add: valid_index_def list_all2_lengthD)

lemma map2_clip_valid:
  "list_all2 (\<lambda>i n. i < n) idx s \<Longrightarrow> map2 (\<lambda>n i. if n = Suc 0 then 0 else i) s idx = idx"
  by (induction idx s rule: list_all2_induct) auto

lemma bindex_valid: "valid_index s idx \<Longrightarrow> bindex s idx = idx"
  using valid_index_length [of s idx]
  by (simp add: bindex_def pad_same valid_index_def map2_clip_valid)

lemma map2_clip_ones: "length rest = k \<Longrightarrow> map2 (\<lambda>n i. if n = Suc 0 then 0 else i) (replicate k (Suc 0)) rest = replicate k (0::nat)"
  by (induction rest arbitrary: k) auto

lemma bindex_unit:
  "length rest = k \<Longrightarrow> b < n \<Longrightarrow> bindex (n # replicate k (Suc 0)) (b # rest) = b # replicate k 0"
  by (auto simp add: bindex_def pad_same map2_clip_ones)

section \<open>Rounding lemmas\<close>

lemma round_even_bounds:
  "z - 1/2 \<le> of_int (round_even z) \<and> of_int (round_even z) \<le> z + 1/2"
proof -
  have f: "of_int \<lfloor>z\<rfloor> \<le> z" "z < of_int \<lfloor>z\<rfloor> + 1" by linarith+
  show ?thesis
    apply (auto simp: round_even_def)
    using f by linarith+
qed

lemma round_even_near:
  assumes "\<bar>z - of_int m\<bar> < 1/2"
  shows "round_even z = m"
proof -
  from round_even_bounds [of z] assms
  have "\<bar>(of_int (round_even z) :: real) - of_int m\<bar> < 1" by linarith
  then have "\<bar>round_even z - m\<bar> < 1"
    by (metis of_int_abs of_int_diff of_int_less_1_iff)
  then show ?thesis by linarith
qed




text \<open>A positive number between two powers of two is rounded at the spacing of that binade.\<close>

lemma floorlog_binade:
  assumes "2 ^ (p - 1) * 2 ^ k \<le> (y::real)" and "y < 2 ^ p * 2 ^ k" and "0 < p"
  shows "floorlog 2 (nat \<lfloor>y\<rfloor>) = p + k"
proof -
  let ?n = "nat \<lfloor>y\<rfloor>"
  have "(0::real) \<le> 2 ^ (p - 1) * 2 ^ k" by simp
  with assms(1) have y0: "0 \<le> y" by linarith
  have "(2::real) ^ (p - 1) * 2 ^ k = of_int (2 ^ (p - 1 + k))" by (simp add: power_add)
  with assms(1) have "(2::int) ^ (p - 1 + k) \<le> \<lfloor>y\<rfloor>" by (simp add: le_floor_iff)
  then have lo: "2 ^ (p + k - 1) \<le> ?n"
    using assms(3) by (simp add: nat_le_iff Nat.add_diff_assoc2)
  have "y < of_int (2 ^ (p + k))" using assms(2) by (simp add: power_add)
  then have "\<lfloor>y\<rfloor> < 2 ^ (p + k)" by (simp add: floor_less_iff)
  then have hi: "?n < 2 ^ (p + k)" using y0 by (simp add: nat_less_iff)
  have "floorlog 2 ?n \<le> p + k" using hi by (intro floorlog_leI) auto
  moreover have "p + k \<le> floorlog 2 ?n" using lo by (intro floorlog_geI) auto
  ultimately show ?thesis by simp
qed

lemma ieee_round_binade:
  assumes "q \<le> s" and "0 < p"
    and "2 ^ (p - 1) \<le> x * 2 ^ q" and "x * 2 ^ q < 2 ^ p"
    and "\<bar>x * 2 ^ q - of_int m\<bar> < 1/2"
  shows "ieee_round p s x = of_int m / 2 ^ q"
proof -
  define k where "k = s - q"
  have s: "s = q + k" using assms(1) by (simp add: k_def)
  have "(0::real) < 2 ^ (p - 1)" by simp
  with assms(3) have "0 < x * 2 ^ q" by linarith
  then have xpos: "0 < x" by (simp add: zero_less_mult_iff)
  let ?y = "\<bar>x\<bar> * 2 ^ s"
  have y: "?y = x * 2 ^ q * 2 ^ k" using xpos by (simp add: s power_add)
  have b1: "2 ^ (p - 1) * 2 ^ k \<le> ?y" unfolding y using assms(3) by simp
  have b2: "?y < 2 ^ p * 2 ^ k" unfolding y using assms(4) by simp
  have fk: "floorlog 2 (nat \<lfloor>?y\<rfloor>) - p = k"
    using floorlog_binade [OF b1 b2 assms(2)] by simp
  have yk: "?y / 2 ^ k = x * 2 ^ q" unfolding y by simp
  have r: "round_even (?y / 2 ^ k) = m" unfolding yk using assms(5) by (rule round_even_near)
  have "ieee_round p s x = sgn x * (of_int m * 2 ^ k / 2 ^ s)"
    unfolding ieee_round_def Let_def fk r ..
  also have "\<dots> = of_int m / 2 ^ q" using xpos by (simp add: s power_add)
  finally show ?thesis .
qed

lemma ieee_round_0 [simp]: "ieee_round p s 0 = 0"
  by (simp add: ieee_round_def)








section \<open>The schedule constants\<close>









lemma set_x_shape_fields [simp]:
  "betas (set_x_shape self x0) = betas self"
  "alphas (set_x_shape self x0) = alphas self"
  "alphas_bar (set_x_shape self x0) = alphas_bar self"
  "alphas_bar_prev (set_x_shape self x0) = alphas_bar_prev self"
  "T (set_x_shape self x0) = T self"
  "eps_model (set_x_shape self x0) = eps_model self"
  "loss_type (set_x_shape self x0) = loss_type self"
  "uncond_mask_dist (set_x_shape self x0) = uncond_mask_dist self"
  by (simp_all add: set_x_shape_def)


lemma loss_args_process: "fst (fst (loss_args self st g x0 cond)) = set_x_shape self x0"
  by (auto simp: loss_args_def Let_def split: prod.splits sum.splits)

lemma DM_loss_args_process: "fst (fst (DM_loss_args self st g x0 cond h)) = set_x_shape self x0"
  by (auto simp: DM_loss_args_def Let_def split: prod.splits sum.splits)



lemma fl32_eval:
  assumes "q \<le> 149" and "2 ^ 23 \<le> x * 2 ^ q" and "x * 2 ^ q < 2 ^ 24"
    and "\<bar>x * 2 ^ q - of_int m\<bar> < 1/2"
  shows "fl32 x = of_int m / 2 ^ q"
  unfolding fl32_def using assms by (intro ieee_round_binade) simp_all

lemma fl64_eval:
  assumes "q \<le> 1074" and "2 ^ 52 \<le> x * 2 ^ q" and "x * 2 ^ q < 2 ^ 53"
    and "\<bar>x * 2 ^ q - of_int m\<bar> < 1/2"
  shows "fl64 x = of_int m / 2 ^ q"
  unfolding fl64_def using assms by (intro ieee_round_binade) simp_all

lemma ex_alphas:
  "map (\<lambda>b. fl32 (1 - b)) [1/4, 1/2] = [3/4, 1/2]"
proof -
  have a0: "fl32 (3/4) = 3/4"
  proof -
    have "fl32 (3/4) = of_int 12582912 / 2 ^ 24"
      by (rule fl32_eval) simp_all
    then show ?thesis by simp
  qed
  have a1: "fl32 (1/2) = 1/2"
  proof -
    have "fl32 (1/2) = of_int 8388608 / 2 ^ 24"
      by (rule fl32_eval) simp_all
    then show ?thesis by simp
  qed
  show ?thesis by (simp add: a0 a1)
qed

lemma ex_cumprod_acc:
  "cumprod_acc 1 [3/4, 1/2] = [3/4, 3/8]"
proof -
  have c0: "fl64 (1 * (3/4)) = 3/4"
  proof -
    have "fl64 (1 * (3/4)) = of_int 6755399441055744 / 2 ^ 53"
      by (rule fl64_eval) simp_all
    then show ?thesis by simp
  qed
  have c1: "fl64 ((3/4) * (1/2)) = 3/8"
  proof -
    have "fl64 ((3/4) * (1/2)) = of_int 6755399441055744 / 2 ^ 54"
      by (rule fl64_eval) simp_all
    then show ?thesis by simp
  qed
  show ?thesis by (simp only: cumprod_acc.simps c0 c1)
qed

lemma ex_cumprod:
  "cumprod [3/4, 1/2] = [3/4, 3/8]"
proof -
  have d0: "fl32 (3/4) = 3/4"
  proof -
    have "fl32 (3/4) = of_int 12582912 / 2 ^ 24"
      by (rule fl32_eval) simp_all
    then show ?thesis by simp
  qed
  have d1: "fl32 (3/8) = 3/8"
  proof -
    have "fl32 (3/8) = of_int 12582912 / 2 ^ 25"
      by (rule fl32_eval) simp_all
    then show ?thesis by simp
  qed
  show ?thesis by (simp only: cumprod_def ex_cumprod_acc list.map d0 d1)
qed





lemma init_linear:
  assumes "beta_schedual_linear du kw T0 dev = Inr bs"
    and "use_cond m" and "0 \<le> 1 - pr" and "1 - pr \<le> 1"
  shows "init du m (Some pr) T0 dev lt ''linear'' kw =
           Inr \<lparr>eps_model = m, T = T0, device = dev, loss_type = lt, x_shape = None,
                beta_schedule = ''linear'', uncond_mask_dist = Some (1 - pr), betas = bs,
                alphas = map (\<lambda>b. fl32 (1 - b)) bs,
                alphas_bar = cumprod (map (\<lambda>b. fl32 (1 - b)) bs),
                alphas_bar_prev = 1 # butlast (cumprod (map (\<lambda>b. fl32 (1 - b)) bs))\<rparr>"
  using assms by (simp add: init_def Let_def Bernoulli_def)

lemma init_ex: "init ex_utils ex_model (Some (1/4)) 2 ''cpu'' ''l2'' ''linear'' () = Inr ex_proc"
proof -
  have g: "beta_schedual_linear ex_utils () 2 ''cpu'' = Inr [1/4, 1/2]"
    by (simp add: ex_utils_def)
  have u: "use_cond ex_model" by (simp add: ex_model_def)
  have "init ex_utils ex_model (Some (1/4)) 2 ''cpu'' ''l2'' ''linear'' () =
          Inr \<lparr>eps_model = ex_model, T = 2, device = ''cpu'', loss_type = ''l2'',
               x_shape = None, beta_schedule = ''linear'', uncond_mask_dist = Some (1 - 1/4),
               betas = [1/4, 1/2], alphas = [3/4, 1/2], alphas_bar = [3/4, 3/8],
               alphas_bar_prev = 1 # butlast [3/4, 3/8]\<rparr>"
    using init_linear [OF g u, of "1/4" "''l2''"] unfolding ex_alphas ex_cumprod by simp
  then show ?thesis by (simp add: ex_proc_def)
qed





section \<open>The forward process\<close>

lemma valid_index_Cons:
  "valid_index (n # ns) idx = (\<exists>i rest. idx = i # rest \<and> i < n \<and> valid_index ns rest)"
  by (cases idx) (auto simp: valid_index_def)

lemma gather_in_range:
  assumes "\<forall>i\<in>set t. 0 \<le> i \<and> i < int (length consts)"
  shows "\<exists>ab. gather consts t n = Inr ab
           \<and> shape ab = length t # replicate (n - 1) (Suc 0)
           \<and> (\<forall>i rest. elem ab (i # rest) = consts ! nat (t ! i))"
  using assms by (simp add: gather_def list_all_iff)

lemma tbin_unit:
  assumes "shape a = b # replicate (length ds) (Suc 0)" and "shape x = b # ds"
  shows "\<exists>r. tbin f a x = Inr r \<and> shape r = b # ds
           \<and> (\<forall>idx. valid_index (b # ds) idx \<longrightarrow>
                 elem r idx = f (elem a (hd idx # replicate (length ds) 0)) (elem x idx))"
proof -
  have "elem a (bindex (shape a) idx) = elem a (hd idx # replicate (length ds) 0)
      \<and> elem x (bindex (shape x) idx) = elem x idx"
    if v: "valid_index (b # ds) idx" for idx
  proof -
    from v obtain i rest where idx: "idx = i # rest" "i < b" "valid_index ds rest"
      by (auto simp: valid_index_Cons)
    then have len: "length rest = length ds" by (simp add: valid_index_length)
    show ?thesis
      using bindex_unit [OF len idx(2)] bindex_valid [OF v] by (simp add: assms idx(1))
  qed
  then show ?thesis
    by (simp add: tbin_def assms broadcast_shapes_unit)
qed

lemma tbin_same:
  assumes "shape a = shape x"
  shows "\<exists>r. tbin f a x = Inr r \<and> shape r = shape x
           \<and> (\<forall>idx. valid_index (shape x) idx \<longrightarrow> elem r idx = f (elem a idx) (elem x idx))"
  by (simp add: tbin_def assms broadcast_shapes_same bindex_valid)

lemma q_xt_x0_result:
  assumes "shape x0 = b # ds"
    and "length t = b"
    and "\<forall>i\<in>set t. 0 \<le> i \<and> i < T self"
    and "length (alphas_bar self) = nat (T self)"
  shows "\<exists>mean std. q_xt_x0 self x0 t = Inr (mean, std)
           \<and> shape mean = b # ds
           \<and> shape std = b # replicate (length ds) (Suc 0)
           \<and> (\<forall>i rest. i < b \<longrightarrow> valid_index ds rest \<longrightarrow>
                 elem mean (i # rest) = sqrt (alphas_bar self ! nat (t ! i)) * elem x0 (i # rest)
               \<and> elem std (i # replicate (length ds) 0) = sqrt (1 - alphas_bar self ! nat (t ! i)))"
proof -
  have rng: "\<forall>i\<in>set t. 0 \<le> i \<and> i < int (length (alphas_bar self))"
    using assms(3,4) by auto
  from gather_in_range [OF rng, of "length (shape x0)"]
  obtain ab where ab: "gather (alphas_bar self) t (length (shape x0)) = Inr ab"
      "shape ab = b # replicate (length ds) (Suc 0)"
      "\<And>i rest. elem ab (i # rest) = alphas_bar self ! nat (t ! i)"
    by (auto simp: assms(1,2))
  have sa: "shape (tmap sqrt ab) = b # replicate (length ds) (Suc 0)"
    by (simp add: tmap_def ab(2))
  from tbin_unit [OF sa assms(1), of "(*)"]
  obtain mean where mean: "tbin (*) (tmap sqrt ab) x0 = Inr mean" "shape mean = b # ds"
      "\<And>idx. valid_index (b # ds) idx \<Longrightarrow>
          elem mean idx = elem (tmap sqrt ab) (hd idx # replicate (length ds) 0) * elem x0 idx"
    by blast
  let ?std = "tmap sqrt (tmap (\<lambda>a. 1 - a) ab)"
  have q: "q_xt_x0 self x0 t = Inr (mean, ?std)"
    by (simp add: q_xt_x0_def ab(1) mean(1))
  have sstd: "shape ?std = b # replicate (length ds) (Suc 0)"
    by (simp add: tmap_def ab(2))
  have pt: "elem mean (i # rest) = sqrt (alphas_bar self ! nat (t ! i)) * elem x0 (i # rest)
          \<and> elem ?std (i # replicate (length ds) 0) = sqrt (1 - alphas_bar self ! nat (t ! i))"
    if "i < b" "valid_index ds rest" for i rest
  proof -
    from that have v: "valid_index (b # ds) (i # rest)" by (simp add: valid_index_Cons)
    show ?thesis using mean(3) [OF v] by (simp add: tmap_def ab(3))
  qed
  show ?thesis
    using q pt sstd mean(2) by simp
qed

text \<open>
  C1: for a batch \<open>x0\<close> and one timestep in \<open>[0, T)\<close> per batch element,
  \<open>q_xt_x0\<close> returns \<open>(mean, std)\<close>: \<open>mean\<close> has the shape of \<open>x0\<close> and holds
  \<open>sqrt(alpha_bar_t) * x0\<close> at every position, with \<open>alpha_bar_t\<close> taken at the
  timestep of the position's batch element, whatever the rank of the data; \<open>std\<close> has
  extent 1 on every data axis and is read as \<open>sqrt(1 - alpha_bar_t)\<close> at every position
  of an operation that broadcasts it against \<open>x0\<close>. The function takes and returns no
  state: its result is determined by the schedule constants, \<open>x0\<close> and \<open>t\<close>.
\<close>

theorem q_xt_x0_forward:
  assumes "shape x0 = b # ds"
    and "length t = b"
    and "\<forall>i\<in>set t. 0 \<le> i \<and> i < T self"
    and "length (alphas_bar self) = nat (T self)"
  shows "\<exists>mean std. q_xt_x0 self x0 t = Inr (mean, std)
           \<and> shape mean = shape x0
           \<and> shape std = b # replicate (length ds) 1
           \<and> (\<forall>idx. valid_index (shape x0) idx \<longrightarrow>
                 elem mean idx = sqrt (alphas_bar self ! nat (t ! hd idx)) * elem x0 idx
               \<and> elem std (bindex (shape std) idx) = sqrt (1 - alphas_bar self ! nat (t ! hd idx)))"
proof -
  from q_xt_x0_result [OF assms]
  obtain mean std where r: "q_xt_x0 self x0 t = Inr (mean, std)" "shape mean = b # ds"
      "shape std = b # replicate (length ds) (Suc 0)"
      "\<And>i rest. i < b \<Longrightarrow> valid_index ds rest \<Longrightarrow>
         elem mean (i # rest) = sqrt (alphas_bar self ! nat (t ! i)) * elem x0 (i # rest)
       \<and> elem std (i # replicate (length ds) 0) = sqrt (1 - alphas_bar self ! nat (t ! i))"
    by blast
  have pt: "elem mean idx = sqrt (alphas_bar self ! nat (t ! hd idx)) * elem x0 idx
          \<and> elem std (bindex (shape std) idx) = sqrt (1 - alphas_bar self ! nat (t ! hd idx))"
    if v: "valid_index (shape x0) idx" for idx
  proof -
    from v obtain i rest where idx: "idx = i # rest" "i < b" "valid_index ds rest"
      by (auto simp: assms(1) valid_index_Cons)
    then have len: "length rest = length ds" by (simp add: valid_index_length)
    show ?thesis
      using r(4) [OF idx(2,3)] bindex_unit [OF len idx(2)] by (simp add: idx(1) r(3))
  qed
  show ?thesis
    using r(1,2,3) pt by (simp add: assms(1))
qed

theorem q_xt_x0_forward_witness:
  "shape ex_x0 = [1, 2] \<and> length [0::int] = 1 \<and> (0::int) < T ex_proc
   \<and> length (alphas_bar ex_proc) = nat (T ex_proc)
   \<and> (\<exists>mean std. q_xt_x0 ex_proc ex_x0 [0] = Inr (mean, std)
         \<and> shape mean = [1, 2] \<and> shape std = [1, 1]
         \<and> elem mean [0, 0] = sqrt (3/4) * 2 \<and> elem mean [0, 1] = sqrt (3/4) * 3
         \<and> elem std [0, 0] = sqrt (1/4))"
proof -
  have h1: "shape ex_x0 = [1, 2]" by (simp add: ex_x0_def)
  have h2: "length [0::int] = 1" by simp
  have h3: "\<forall>i\<in>set [0::int]. 0 \<le> i \<and> i < T ex_proc" by (simp add: ex_proc_def)
  have h4: "length (alphas_bar ex_proc) = nat (T ex_proc)" by (simp add: ex_proc_def)
  from q_xt_x0_forward [OF h1 h2 h3 h4]
  obtain mean std where r: "q_xt_x0 ex_proc ex_x0 [0] = Inr (mean, std)"
      "shape mean = shape ex_x0" "shape std = 1 # replicate (length [2::nat]) 1"
      "\<And>idx. valid_index (shape ex_x0) idx \<Longrightarrow>
         elem mean idx = sqrt (alphas_bar ex_proc ! nat ([0] ! hd idx)) * elem ex_x0 idx
       \<and> elem std (bindex (shape std) idx) = sqrt (1 - alphas_bar ex_proc ! nat ([0] ! hd idx))"
    by blast
  have v0: "valid_index (shape ex_x0) [0, 0]" and v1: "valid_index (shape ex_x0) [0, 1]"
    by (simp_all add: h1 valid_index_def)
  from r(4) [OF v0] r(4) [OF v1] r(3)
  have "elem mean [0, 0] = sqrt (3/4) * 2 \<and> elem mean [0, 1] = sqrt (3/4) * 3
        \<and> elem std [0, 0] = sqrt (1/4)"
    by (simp add: ex_proc_def ex_x0_def bindex_def pad_def)
  with r(1,2,3) h1 h2 h3 h4 show ?thesis by simp
qed

section \<open>The noisy sample\<close>

lemma broadcast_dims_ones_right:
  "length ds = k \<Longrightarrow> broadcast_dims ds (replicate k (Suc 0)) = Some ds"
  by (induction ds arbitrary: k) auto

lemma broadcast_shapes_unit_right:
  "length ds = k \<Longrightarrow> broadcast_shapes (b # ds) (b # replicate k (Suc 0)) = Some (b # ds)"
  by (simp add: broadcast_shapes_def pad_same broadcast_dims_ones_right)

lemma tbin_inplace_unit:
  assumes "shape a = b # ds" and "shape m = b # replicate (length ds) (Suc 0)"
  shows "\<exists>r. tbin_inplace f a m = Inr r \<and> shape r = b # ds
           \<and> (\<forall>i rest. i < b \<longrightarrow> valid_index ds rest \<longrightarrow>
                 elem r (i # rest) = f (elem a (i # rest)) (elem m (i # replicate (length ds) 0)))"
proof -
  have "elem a (bindex (shape a) (i # rest)) = elem a (i # rest)
      \<and> elem m (bindex (shape m) (i # rest)) = elem m (i # replicate (length ds) 0)"
    if "i < b" "valid_index ds rest" for i rest
  proof -
    from that have v: "valid_index (b # ds) (i # rest)" by (simp add: valid_index_Cons)
    from that have len: "length rest = length ds" by (simp add: valid_index_length)
    show ?thesis
      using bindex_unit [OF len that(1)] bindex_valid [OF v] by (simp add: assms)
  qed
  then show ?thesis
    by (simp add: tbin_inplace_def tbin_def assms broadcast_shapes_unit_right)
qed

lemma torch_randint_ok:
  assumes "0 < high"
  shows "\<exists>t. torch_randint g high n = Inr t \<and> length t = n \<and> (\<forall>i\<in>set t. 0 \<le> i \<and> i < high)"
proof -
  have "int (k mod nat high) < high" for k
  proof -
    have "k mod nat high < nat high" using assms by simp
    then show ?thesis using assms by linarith
  qed
  then show ?thesis using assms by (auto simp: torch_randint_def)
qed

lemma noisy_sample_ok:
  assumes "shape x0 = b # ds"
    and "0 < T self"
    and "length (alphas_bar self) = nat (T self)"
  shows "\<exists>t xt. noisy_sample self g x0 = Inr (b, t, randn_like g x0, xt)
           \<and> length t = b \<and> (\<forall>i\<in>set t. 0 \<le> i \<and> i < T self)
           \<and> shape xt = b # ds
           \<and> (\<forall>i rest. i < b \<longrightarrow> valid_index ds rest \<longrightarrow>
                 elem xt (i # rest) =
                   sqrt (alphas_bar self ! nat (t ! i)) * elem x0 (i # rest)
                   + sqrt (1 - alphas_bar self ! nat (t ! i)) * randn_raw g (i # rest))"
proof -
  from torch_randint_ok [OF assms(2), of g b]
  obtain t where t: "torch_randint g (T self) b = Inr t" "length t = b"
      "\<forall>i\<in>set t. 0 \<le> i \<and> i < T self"
    by blast
  from q_xt_x0_result [OF assms(1) t(2) t(3) assms(3)]
  obtain mean std where q: "q_xt_x0 self x0 t = Inr (mean, std)" "shape mean = b # ds"
      "shape std = b # replicate (length ds) (Suc 0)"
      "\<And>i rest. i < b \<Longrightarrow> valid_index ds rest \<Longrightarrow>
         elem mean (i # rest) = sqrt (alphas_bar self ! nat (t ! i)) * elem x0 (i # rest)
       \<and> elem std (i # replicate (length ds) 0) = sqrt (1 - alphas_bar self ! nat (t ! i))"
    by blast
  have se: "shape (randn_like g x0) = b # ds" by (simp add: randn_like_def assms(1))
  from tbin_unit [OF q(3) se, of "(*)"]
  obtain se where se: "tbin (*) std (randn_like g x0) = Inr se" "shape se = b # ds"
      "\<And>idx. valid_index (b # ds) idx \<Longrightarrow>
          elem se idx = elem std (hd idx # replicate (length ds) 0) * elem (randn_like g x0) idx"
    by blast
  have "shape mean = shape se" by (simp add: q(2) se(2))
  from tbin_same [OF this, of "(+)"]
  obtain xt where xt: "tbin (+) mean se = Inr xt" "shape xt = b # ds"
      "\<And>idx. valid_index (b # ds) idx \<Longrightarrow> elem xt idx = elem mean idx + elem se idx"
    by (auto simp: se(2))
  have ns: "noisy_sample self g x0 = Inr (b, t, randn_like g x0, xt)"
    by (simp add: noisy_sample_def assms(1) t(1) q(1) Let_def se(1) xt(1))
  have pt: "elem xt (i # rest) =
              sqrt (alphas_bar self ! nat (t ! i)) * elem x0 (i # rest)
              + sqrt (1 - alphas_bar self ! nat (t ! i)) * randn_raw g (i # rest)"
    if "i < b" "valid_index ds rest" for i rest
  proof -
    from that have v: "valid_index (b # ds) (i # rest)" by (simp add: valid_index_Cons)
    show ?thesis
      using xt(3) [OF v] se(3) [OF v] q(4) [OF that] by (simp add: randn_like_def)
  qed
  show ?thesis using ns t(2,3) xt(2) pt by blast
qed

section \<open>The arguments of the predictor in the trajectory variant\<close>

lemma assign_prefix_ok:
  assumes "shape xt0 = b # l # ds" and "shape x0 = b # l # ds"
  shows "\<exists>xt. assign_prefix xt0 x0 h = Inr xt \<and> shape xt = b # l # ds
           \<and> (\<forall>i p rest. elem xt (i # p # rest) =
                 (if p < slice_stop h l then elem x0 (i # p # rest) else elem xt0 (i # p # rest)))"
  by (simp add: assign_prefix_def slice_shape_def assms)


lemma append_flag_ok:
  assumes "shape (st ! a) = [b, d]"
  shows "\<exists>c. append_flag b st (Some a) = Inr (st @ [c], length st)
           \<and> shape c = [b, Suc d]
           \<and> (\<forall>i j. elem c [i, j] = (if j < d then elem (st ! a) [i, j] else 1))"
  by (simp add: append_flag_def cat_last_def assms ones_def)

lemma uncond_mask_off:
  assumes "\<not> use_cond (eps_model self)"
  shows "uncond_mask self g b st cond = (st, Inr ())"
  using assms by (simp add: uncond_mask_def)

lemma uncond_mask_on:
  assumes "use_cond (eps_model self)" and "uncond_mask_dist self = Some probs"
    and "shape (st ! a) = [b, d]"
  shows "\<exists>c. uncond_mask self g b st (Some a) = (st[a := c], Inr ())
           \<and> shape c = [b, d]
           \<and> (\<forall>i j. i < b \<longrightarrow> j < d \<longrightarrow>
                 elem c [i, j] = elem (st ! a) [i, j] * (if bernoulli_raw g i then 1 else 0))"
proof -
  have sm: "shape (bernoulli_sample g b) = b # replicate (length [d]) (Suc 0)"
    by (simp add: bernoulli_sample_def)
  from tbin_inplace_unit [OF assms(3) sm, of "(*)"]
  obtain c where c: "tbin_inplace (*) (st ! a) (bernoulli_sample g b) = Inr c" "shape c = [b, d]"
      "\<And>i rest. i < b \<Longrightarrow> valid_index [d] rest \<Longrightarrow>
         elem c (i # rest) =
           elem (st ! a) (i # rest) * elem (bernoulli_sample g b) (i # replicate (length [d]) 0)"
    by blast
  have "elem c [i, j] = elem (st ! a) [i, j] * (if bernoulli_raw g i then 1 else 0)"
    if "i < b" "j < d" for i j
  proof -
    have "valid_index [d] [j]" using that by (simp add: valid_index_def)
    from c(3) [OF that(1) this] show ?thesis by (simp add: bernoulli_sample_def)
  qed
  then have pt: "\<forall>i j. i < b \<longrightarrow> j < d \<longrightarrow>
      elem c [i, j] = elem (st ! a) [i, j] * (if bernoulli_raw g i then 1 else 0)"
    by blast
  have "uncond_mask self g b st (Some a) = (st[a := c], Inr ())"
    by (simp add: uncond_mask_def assms(1,2) Let_def c(1))
  with c(2) pt show ?thesis by blast
qed

lemma DM_loss_args_ok:
  assumes "shape x0 = b # l # ds"
    and "0 < T self"
    and "length (alphas_bar self) = nat (T self)"
    and "shape (st ! a) = [b, d]"
    and "use_cond (eps_model self) \<longrightarrow> uncond_mask_dist self \<noteq> None"
  shows "\<exists>t xt0 xt c c'.
           noisy_sample (set_x_shape self x0) g x0 = Inr (b, t, randn_like g x0, xt0)
         \<and> DM_loss_args self st g x0 (Some a) h =
             ((set_x_shape self x0, st @ [c']), Inr ((xt, t, Some (length st)), randn_like g x0))
         \<and> shape xt = b # l # ds
         \<and> (\<forall>i p rest. elem xt (i # p # rest) =
               (if p < slice_stop h l then elem x0 (i # p # rest) else elem xt0 (i # p # rest)))
         \<and> append_flag b st (Some a) = Inr (st @ [c], length st)
         \<and> shape c = [b, Suc d] \<and> shape c' = [b, Suc d]
         \<and> (\<forall>i j. elem c [i, j] = (if j < d then elem (st ! a) [i, j] else 1))
         \<and> (if use_cond (eps_model self)
            then (\<forall>i j. i < b \<longrightarrow> j < Suc d \<longrightarrow>
                    elem c' [i, j] = elem c [i, j] * (if bernoulli_raw g i then 1 else 0))
            else c' = c)"
proof -
  let ?self = "set_x_shape self x0"
  have T1: "0 < T ?self" "length (alphas_bar ?self) = nat (T ?self)"
    using assms(2,3) by simp_all
  from noisy_sample_ok [OF assms(1) T1, of g]
  obtain t xt0 where ns: "noisy_sample ?self g x0 = Inr (b, t, randn_like g x0, xt0)"
      "shape xt0 = b # l # ds"
    by blast
  from assign_prefix_ok [OF ns(2) assms(1), of h]
  obtain xt where xt: "assign_prefix xt0 x0 h = Inr xt" "shape xt = b # l # ds"
      "\<forall>i p rest. elem xt (i # p # rest) =
         (if p < slice_stop h l then elem x0 (i # p # rest) else elem xt0 (i # p # rest))"
    by blast
  from append_flag_ok [OF assms(4)]
  obtain c where c: "append_flag b st (Some a) = Inr (st @ [c], length st)"
      "shape c = [b, Suc d]"
      "\<forall>i j. elem c [i, j] = (if j < d then elem (st ! a) [i, j] else 1)"
    by blast
  have "\<exists>c'. uncond_mask ?self g b (st @ [c]) (Some (length st)) = (st @ [c'], Inr ())
          \<and> shape c' = [b, Suc d]
          \<and> (if use_cond (eps_model self)
              then (\<forall>i j. i < b \<longrightarrow> j < Suc d \<longrightarrow>
                      elem c' [i, j] = elem c [i, j] * (if bernoulli_raw g i then 1 else 0))
              else c' = c)"
  proof (cases "use_cond (eps_model self)")
    case False
    then show ?thesis using c(2) by (simp add: uncond_mask_off)
  next
    case True
    with assms(5) obtain probs where pr: "uncond_mask_dist ?self = Some probs" by auto
    have u: "use_cond (eps_model ?self)" using True by simp
    have sc: "shape ((st @ [c]) ! length st) = [b, Suc d]" using c(2) by simp
    from uncond_mask_on [OF u pr sc, of g] True show ?thesis by auto
  qed
  then obtain c' where c': "uncond_mask ?self g b (st @ [c]) (Some (length st)) = (st @ [c'], Inr ())"
      "shape c' = [b, Suc d]"
      "if use_cond (eps_model self)
       then (\<forall>i j. i < b \<longrightarrow> j < Suc d \<longrightarrow>
               elem c' [i, j] = elem c [i, j] * (if bernoulli_raw g i then 1 else 0))
       else c' = c"
    by blast
  have "DM_loss_args self st g x0 (Some a) h =
          ((?self, st @ [c']), Inr ((xt, t, Some (length st)), randn_like g x0))"
    by (simp add: DM_loss_args_def Let_def ns(1) xt(1) c(1) c'(1))
  with ns(1) xt(2,3) c c'(2,3) show ?thesis by blast
qed






lemma uncond_mask_on_dist:
  assumes "uncond_mask self g b st cond = (st', Inr u)" and "use_cond (eps_model self)"
  shows "uncond_mask_dist self \<noteq> None"
  using assms by (auto simp: uncond_mask_def split: option.splits)



section \<open>The choice of the loss\<close>

lemma indices_valid: "idx \<in> set (indices s) \<Longrightarrow> valid_index s idx"
  by (induction s arbitrary: idx) (auto simp: valid_index_def)

lemma mean_all_same:
  assumes "shape r = s" and "\<forall>idx. valid_index s idx \<longrightarrow> elem r idx = f idx"
  shows "mean_all r =
           (if numel s = 0 then NaN
            else Finite ((\<Sum>idx\<leftarrow>indices s. f idx) / real (numel s)))"
proof -
  have "map (elem r) (indices s) = map f (indices s)"
    using assms(2) by (auto dest: indices_valid)
  then have "sum_list (map (elem r) (indices s)) = sum_list (map f (indices s))"
    by (rule arg_cong)
  then show ?thesis unfolding mean_all_def assms(1) by simp
qed

lemma l1_loss_same:
  assumes "shape pred = shape target"
  shows "l1_loss pred target = Inr (mean_absolute_error pred target)"
proof -
  from tbin_same [OF assms, of "\<lambda>a b. \<bar>a - b\<bar>"]
  obtain r where r: "tbin (\<lambda>a b. \<bar>a - b\<bar>) pred target = Inr r" "shape r = shape target"
      "\<forall>idx. valid_index (shape target) idx \<longrightarrow> elem r idx = \<bar>elem pred idx - elem target idx\<bar>"
    by blast
  from mean_all_same [OF r(2,3)] r(1) show ?thesis
    by (simp add: l1_loss_def mean_absolute_error_def)
qed

lemma mse_loss_same:
  assumes "shape pred = shape target"
  shows "mse_loss pred target = Inr (mean_squared_error pred target)"
proof -
  from tbin_same [OF assms, of "\<lambda>a b. (a - b)\<^sup>2"]
  obtain r where r: "tbin (\<lambda>a b. (a - b)\<^sup>2) pred target = Inr r" "shape r = shape target"
      "\<forall>idx. valid_index (shape target) idx \<longrightarrow> elem r idx = (elem pred idx - elem target idx)\<^sup>2"
    by blast
  from mean_all_same [OF r(2,3)] r(1) show ?thesis
    by (simp add: mse_loss_def mean_squared_error_def)
qed

lemma call_and_reduce_kind:
  assumes "forward (eps_model self1) xt t (map_option ((!) st1) c) = Inr pred"
    and "shape pred = shape eps"
  shows "call_and_reduce ((self1, st1), Inr ((xt, t, c), eps)) =
           ((self1, st1),
            if loss_type self1 = ''l1'' then Inr (mean_absolute_error pred eps)
            else if loss_type self1 = ''l2'' then Inr (mean_squared_error pred eps)
            else Inl (ValueError (''Unknown loss_type: '' @ loss_type self1)))"
  by (simp add: call_and_reduce_def assms(1) reduce_loss_def
      l1_loss_same [OF assms(2)] mse_loss_same [OF assms(2)])

lemma init_loss_type:
  assumes "init du m up T0 dev lt sched kw = Inr p"
  shows "init du m up T0 dev lt' sched kw = Inr (p\<lparr>loss_type := lt'\<rparr>)"
  using assms
  by (auto simp: init_def Let_def split: if_splits sum.splits option.splits)

lemma loss_args_ok:
  assumes "shape x0 = b # ds"
    and "0 < T self"
    and "length (alphas_bar self) = nat (T self)"
    and "use_cond (eps_model self) \<longrightarrow>
           uncond_mask_dist self \<noteq> None \<and> (\<exists>a d. cond = Some a \<and> shape (st ! a) = [b, d])"
  shows "\<exists>t xt st1.
           loss_args self st g x0 cond =
             ((set_x_shape self x0, st1), Inr ((xt, t, cond), randn_like g x0))
         \<and> noisy_sample (set_x_shape self x0) g x0 = Inr (b, t, randn_like g x0, xt)
         \<and> uncond_mask (set_x_shape self x0) g b st cond = (st1, Inr ())
         \<and> shape xt = b # ds"
proof -
  let ?self = "set_x_shape self x0"
  have T1: "0 < T ?self" "length (alphas_bar ?self) = nat (T ?self)"
    using assms(2,3) by simp_all
  from noisy_sample_ok [OF assms(1) T1, of g]
  obtain t xt where ns: "noisy_sample ?self g x0 = Inr (b, t, randn_like g x0, xt)"
      "shape xt = b # ds"
    by blast
  have "\<exists>st1. uncond_mask ?self g b st cond = (st1, Inr ())"
  proof (cases "use_cond (eps_model self)")
    case False
    then show ?thesis by (simp add: uncond_mask_off)
  next
    case True
    with assms(4) obtain probs a d where pr: "uncond_mask_dist ?self = Some probs"
        "cond = Some a" "shape (st ! a) = [b, d]"
      by auto
    have u: "use_cond (eps_model ?self)" using True by simp
    from uncond_mask_on [OF u pr(1,3), of g] pr(2) show ?thesis by auto
  qed
  then obtain st1 where m: "uncond_mask ?self g b st cond = (st1, Inr ())" by blast
  have "loss_args self st g x0 cond = ((?self, st1), Inr ((xt, t, cond), randn_like g x0))"
    by (simp add: loss_args_def Let_def ns(1) m)
  with ns m show ?thesis by blast
qed

text \<open>
  C8: when the predictor has been called and has returned a prediction of the shape of
  the noise, \<open>loss\<close> (and \<open>DMDenoiseDiffusion.loss\<close> alike) returns the mean absolute
  error between the prediction and the sampled noise for the loss type \<open>l1\<close>, the mean
  squared error for \<open>l2\<close>, and raises \<open>ValueError("Unknown loss_type: ...")\<close> (the
  spec's UnsupportedLossError) for any other string. The constructor does not look at
  the loss type: where it succeeds with one loss type it succeeds with every other, so
  the error is raised by the loss computation, after the predictor has run.
\<close>

theorem loss_kind:
  assumes "args = ((self1, st1), Inr ((xt, t, c), eps))"
    and "forward (eps_model self1) xt t (map_option ((!) st1) c) = Inr pred"
    and "shape pred = shape eps"
    and "outcome =
           (if loss_type self = ''l1'' then Inr (mean_absolute_error pred eps)
            else if loss_type self = ''l2'' then Inr (mean_squared_error pred eps)
            else Inl (ValueError (''Unknown loss_type: '' @ loss_type self)))"
  shows "(loss_args self st g x0 cond = args \<longrightarrow> snd (loss self st g x0 cond) = outcome)
       \<and> (DM_loss_args self st g x0 cond h = args \<longrightarrow> snd (DM_loss self st g x0 cond h) = outcome)
       \<and> (init du m up T0 dev lt sched kw = Inr p \<longrightarrow>
             init du m up T0 dev lt' sched kw = Inr (p\<lparr>loss_type := lt'\<rparr>))"
proof -
  have k: "snd (call_and_reduce args) = outcome" if "fst (fst args) = set_x_shape self x0"
  proof -
    from that have lt: "loss_type self1 = loss_type self" using assms(1) by simp
    show ?thesis
      unfolding assms(1) call_and_reduce_kind [OF assms(2,3)] by (simp add: lt assms(4))
  qed
  have a: "loss_args self st g x0 cond = args \<longrightarrow> snd (loss self st g x0 cond) = outcome"
    using k loss_args_process [of self st g x0 cond] by (auto simp: loss_def)
  have b: "DM_loss_args self st g x0 cond h = args \<longrightarrow> snd (DM_loss self st g x0 cond h) = outcome"
    using k DM_loss_args_process [of self st g x0 cond h] by (auto simp: DM_loss_def)
  from a b show ?thesis by (simp add: init_loss_type)
qed

theorem loss_kind_witness:
  "\<exists>self1 st1 xt t c eps.
     loss_args (ex_proc\<lparr>loss_type := ''huber''\<rparr>) ex_st ex_g ex_x0 (Some 0)
       = ((self1, st1), Inr ((xt, t, c), eps))
   \<and> forward (eps_model self1) xt t (map_option ((!) st1) c) = Inr xt
   \<and> shape xt = shape eps
   \<and> snd (loss (ex_proc\<lparr>loss_type := ''huber''\<rparr>) ex_st ex_g ex_x0 (Some 0))
       = Inl (ValueError ''Unknown loss_type: huber'')
   \<and> init ex_utils ex_model (Some (1/4)) 2 ''cpu'' ''huber'' ''linear'' ()
       = Inr (ex_proc\<lparr>loss_type := ''huber''\<rparr>)"
proof -
  let ?p = "ex_proc\<lparr>loss_type := ''huber''\<rparr>"
  have 1: "shape ex_x0 = 1 # [2]" by (simp add: ex_x0_def)
  have 2: "0 < T ?p" "length (alphas_bar ?p) = nat (T ?p)"
    by (simp_all add: ex_proc_def)
  have 3: "use_cond (eps_model ?p) \<longrightarrow>
           uncond_mask_dist ?p \<noteq> None \<and> (\<exists>a d. Some 0 = Some a \<and> shape (ex_st ! a) = [1, d])"
    by (simp add: ex_proc_def ex_st_def ex_cond_def)
  from loss_args_ok [OF 1 2 3, of ex_g]
  obtain t xt st1 where a: "loss_args ?p ex_st ex_g ex_x0 (Some 0) =
             ((set_x_shape ?p ex_x0, st1), Inr ((xt, t, Some 0), randn_like ex_g ex_x0))"
      "shape xt = 1 # [2]"
    by blast
  have f: "forward (eps_model (set_x_shape ?p ex_x0)) xt t (map_option ((!) st1) (Some 0)) = Inr xt"
    by (simp add: ex_proc_def ex_model_def)
  have s: "shape xt = shape (randn_like ex_g ex_x0)"
    by (simp add: a(2) randn_like_def ex_x0_def)
  have lt: "loss_type ?p = ''huber''" by simp
  note k = loss_kind [OF refl f s refl, of ?p ex_st ex_g ex_x0 "Some 0" None
      ex_utils ex_model "Some (1/4)" 2 "''cpu''" "''l2''" "''linear''" "()" ex_proc "''huber''"]
  from k a(1)
  have "snd (loss ?p ex_st ex_g ex_x0 (Some 0)) = Inl (ValueError ''Unknown loss_type: huber'')"
    by (simp add: lt)
  moreover from k init_ex
  have "init ex_utils ex_model (Some (1/4)) 2 ''cpu'' ''huber'' ''linear'' () = Inr ?p"
    by blast
  ultimately show ?thesis using a(1) f s by blast
qed

section \<open>The preserved horizon is not checked\<close>

lemma ex_DM_full:
  "snd (DM_loss ex_proc ex_st ex_g ex_x0 (Some 0) (Some 2)) = Inr (Finite (13/2))"
proof -
  have 1: "shape ex_x0 = 1 # 2 # []" by (simp add: ex_x0_def)
  have 2: "0 < T ex_proc" "length (alphas_bar ex_proc) = nat (T ex_proc)"
    by (simp_all add: ex_proc_def)
  have 3: "shape (ex_st ! 0) = [1, 1]" by (simp add: ex_st_def ex_cond_def)
  have 4: "use_cond (eps_model ex_proc) \<longrightarrow> uncond_mask_dist ex_proc \<noteq> None"
    by (simp add: ex_proc_def)
  from DM_loss_args_ok [OF 1 2 3 4, of ex_g "Some 2"]
  obtain t xt0 xt c' where r:
     "DM_loss_args ex_proc ex_st ex_g ex_x0 (Some 0) (Some 2) =
             ((set_x_shape ex_proc ex_x0, ex_st @ [c']), Inr ((xt, t, Some (length ex_st)), randn_like ex_g ex_x0))"
      "shape xt = [1, 2]"
      "\<forall>i p rest. elem xt (i # p # rest) =
               (if p < slice_stop (Some 2) 2 then elem ex_x0 (i # p # rest) else elem (xt0::tensor) (i # p # rest))"
    by blast
  have e: "elem xt [0, 0] = 2" "elem xt [0, Suc 0] = 3"
    using r(3) by (simp_all add: slice_stop_def ex_x0_def)
  have f: "forward (eps_model ex_proc) xt t c0 = Inr xt" for c0
    by (simp add: ex_proc_def ex_model_def)
  have lt: "loss_type ex_proc = ''l2''" by (simp add: ex_proc_def)
  have ix: "indices [Suc 0, 2] = [[0, 0], [0, 1]]"
    by (simp add: numeral_2_eq_2)
  have m: "mse_loss xt (randn_like ex_g ex_x0) = Inr (Finite (13/2))"
    by (simp add: mse_loss_def tbin_def r(2) randn_like_def ex_x0_def broadcast_shapes_def
        pad_def mean_all_def numel_def bindex_def e ex_g_def ix del: indices.simps)
  show ?thesis
    unfolding DM_loss_def r(1) call_and_reduce_def
    by (simp add: f reduce_loss_def lt m)
qed

text \<open>
  C7, as the spec states it, fails: with \<open>preserved_horizon = 2\<close> on sequences of length
  2 the call returns a loss instead of raising. With the noise at 0 and a predictor that
  returns \<open>xt\<close>, the loss \<open>13/2\<close> is the mean of the squares of \<open>x0 = [[2, 3]]\<close>: the
  whole sequence has been preserved silently.
\<close>

theorem DM_loss_horizon_counterexample:
  "snd (DM_loss ex_proc ex_st ex_g ex_x0 (Some 0) (Some 2)) = Inr (Finite (13/2))"
  by (rule ex_DM_full)

text \<open>
  C7, amended: \<open>DMDenoiseDiffusion.loss\<close> does not check \<open>preserved_horizon\<close> against
  the sequence length. On a well-formed call (a batch of sequences, \<open>T > 0\<close>, a
  conditioning of shape \<open>[b, d]\<close>) the predictor is reached for every integer
  \<open>preserved_horizon\<close>; with \<open>preserved_horizon \<ge> sequence_length\<close> the slice is clamped
  and \<open>xt\<close> equals \<open>x0\<close> at every position, and with \<open>preserved_horizon = 0\<close> no
  position is overwritten.
\<close>

theorem DM_loss_horizon_unchecked:
  assumes "shape x0 = b # l # ds"
    and "0 < T self"
    and "length (alphas_bar self) = nat (T self)"
    and "shape (st ! a) = [b, d]"
    and "use_cond (eps_model self) \<longrightarrow> uncond_mask_dist self \<noteq> None"
  shows "\<exists>w xt t c eps xt0.
           noisy_sample (set_x_shape self x0) g x0 = Inr (b, t, eps, xt0)
         \<and> DM_loss_args self st g x0 (Some a) (Some h) = (w, Inr ((xt, t, c), eps))
         \<and> (int l \<le> h \<longrightarrow> (\<forall>idx. valid_index (shape x0) idx \<longrightarrow> elem xt idx = elem x0 idx))
         \<and> (h = 0 \<longrightarrow> (\<forall>idx. valid_index (shape x0) idx \<longrightarrow> elem xt idx = elem xt0 idx))"
proof -
  from DM_loss_args_ok [OF assms, of g "Some h"]
  obtain t xt0 xt c' where r:
      "noisy_sample (set_x_shape self x0) g x0 = Inr (b, t, randn_like g x0, xt0)"
      "DM_loss_args self st g x0 (Some a) (Some h) =
         ((set_x_shape self x0, st @ [c']), Inr ((xt, t, Some (length st)), randn_like g x0))"
      "\<forall>i p rest. elem xt (i # p # rest) =
         (if p < slice_stop (Some h) l then elem x0 (i # p # rest) else elem xt0 (i # p # rest))"
    by blast
  have all: "elem xt idx = elem x0 idx" if "int l \<le> h" "valid_index (shape x0) idx" for idx
  proof -
    from that(2) obtain i p rest where idx: "idx = i # p # rest" "p < l"
      by (auto simp: assms(1) valid_index_Cons)
    have "slice_stop (Some h) l = l" using that(1) by (simp add: slice_stop_def)
    with r(3) idx show ?thesis by simp
  qed
  have none: "elem xt idx = elem xt0 idx" if "h = 0" "valid_index (shape x0) idx" for idx
  proof -
    from that(2) obtain i p rest where idx: "idx = i # p # rest"
      by (auto simp: assms(1) valid_index_Cons)
    have "slice_stop (Some h) l = 0" using that(1) by (simp add: slice_stop_def)
    with r(3) idx show ?thesis by simp
  qed
  from r(1,2) all none show ?thesis by blast
qed

theorem DM_loss_horizon_unchecked_witness:
  "shape ex_x0 = [1, 2] \<and> 0 < T ex_proc \<and> length (alphas_bar ex_proc) = nat (T ex_proc)
   \<and> shape (ex_st ! 0) = [1, 1] \<and> uncond_mask_dist ex_proc \<noteq> None \<and> int 2 \<le> 2
   \<and> (\<exists>w xt t c eps.
         DM_loss_args ex_proc ex_st ex_g ex_x0 (Some 0) (Some 2) = (w, Inr ((xt, t, c), eps))
       \<and> elem xt [0, 0] = elem ex_x0 [0, 0] \<and> elem xt [0, 1] = elem ex_x0 [0, 1])"
proof -
  have 1: "shape ex_x0 = 1 # 2 # []" by (simp add: ex_x0_def)
  have 2: "0 < T ex_proc" "length (alphas_bar ex_proc) = nat (T ex_proc)"
    by (simp_all add: ex_proc_def)
  have 3: "shape (ex_st ! 0) = [1, 1]" by (simp add: ex_st_def ex_cond_def)
  have 4: "use_cond (eps_model ex_proc) \<longrightarrow> uncond_mask_dist ex_proc \<noteq> None"
    by (simp add: ex_proc_def)
  have 5: "uncond_mask_dist ex_proc \<noteq> None" by (simp add: ex_proc_def)
  from DM_loss_horizon_unchecked [OF 1 2 3 4, of ex_g 2]
  obtain w xt t c eps where r:
      "DM_loss_args ex_proc ex_st ex_g ex_x0 (Some 0) (Some 2) = (w, Inr ((xt, t, c), eps))"
      "int 2 \<le> 2 \<longrightarrow> (\<forall>idx. valid_index (shape ex_x0) idx \<longrightarrow> elem xt idx = elem ex_x0 idx)"
    by blast
  have v: "valid_index (shape ex_x0) [0, 0]" "valid_index (shape ex_x0) [0, 1]"
    by (simp_all add: 1 valid_index_def)
  from r(2) v have "elem xt [0, 0] = elem ex_x0 [0, 0] \<and> elem xt [0, 1] = elem ex_x0 [0, 1]"
    by simp
  with r(1) 1 2 3 5 show ?thesis by auto
qed

section \<open>The check of the conditioning configuration\<close>

text \<open>
  C6: the constructor raises the \<open>AssertionError\<close> of line 35 (the spec's
  ConditioningConfigError) exactly when \<open>uncond_prob\<close> is given and the predictor does
  not use the conditioning, or \<open>uncond_prob\<close> is absent and the predictor uses it. The
  schedule generators are parameters, assumed not to raise an \<open>AssertionError\<close> of
  their own. A constructor that raises returns no process, so no loss is computed.
\<close>

theorem init_conditioning_config:
  assumes "\<forall>kw n dev. beta_schedual_linear du kw n dev \<noteq> Inl AssertionError
                     \<and> beta_schedual_cosine du kw n dev \<noteq> Inl AssertionError"
  shows "(init du m up T0 dev lt sched kw = Inl AssertionError)
           = ((up \<noteq> None) \<noteq> use_cond m)
       \<and> (DM_init du m up T0 dev lt sched kw = Inl AssertionError)
           = ((up \<noteq> None) \<noteq> use_cond m)"
proof (cases "(up \<noteq> None) \<noteq> use_cond m")
  case True
  then show ?thesis by (simp add: init_def DM_init_def)
next
  case False
  have "init du m up T0 dev lt sched kw \<noteq> Inl AssertionError"
    using False assms
    by (auto simp: init_def Let_def Bernoulli_def split: if_splits sum.splits option.splits)
  with False show ?thesis by (simp add: DM_init_def)
qed

theorem init_conditioning_config_witness:
  "init ex_utils ex_model None 2 ''cpu'' ''l2'' ''linear'' () = Inl AssertionError
   \<and> init ex_utils (ex_model\<lparr>use_cond := False\<rparr>) (Some (1/4)) 2 ''cpu'' ''l2'' ''linear'' ()
       = Inl AssertionError
   \<and> init ex_utils ex_model (Some (1/4)) 2 ''cpu'' ''l2'' ''linear'' () \<noteq> Inl AssertionError
   \<and> init ex_utils (ex_model\<lparr>use_cond := False\<rparr>) None 2 ''cpu'' ''l2'' ''linear'' ()
       \<noteq> Inl AssertionError"
proof -
  have h: "\<forall>kw n dev. beta_schedual_linear ex_utils kw n dev \<noteq> Inl AssertionError
                     \<and> beta_schedual_cosine ex_utils kw n dev \<noteq> Inl AssertionError"
    by (simp add: ex_utils_def)
  note k = init_conditioning_config [OF h]
  show ?thesis
    using k [of ex_model None 2 "''cpu''" "''l2''" "''linear''" "()"]
      k [of "ex_model\<lparr>use_cond := False\<rparr>" "Some (1/4)" 2 "''cpu''" "''l2''" "''linear''" "()"]
      k [of ex_model "Some (1/4)" 2 "''cpu''" "''l2''" "''linear''" "()"]
      k [of "ex_model\<lparr>use_cond := False\<rparr>" None 2 "''cpu''" "''l2''" "''linear''" "()"]
    by (simp add: ex_model_def)
qed

section \<open>The caller's conditioning tensor\<close>

lemma call_and_reduce_state: "fst (call_and_reduce r) = fst r"
  by (auto simp: call_and_reduce_def split: prod.splits sum.splits)

lemma call_and_reduce_Inr:
  assumes "call_and_reduce r = (w, Inr v)"
  shows "\<exists>xt t c eps. r = (w, Inr ((xt, t, c), eps))"
  using assms by (auto simp: call_and_reduce_def split: prod.splits sum.splits)

lemma call_and_reduce_Inl: "call_and_reduce (w, Inl e) = (w, Inl e)"
  by (simp add: call_and_reduce_def)

lemma loss_args_Inr:
  assumes "loss_args self st g x0 cond = ((self1, st1), Inr ((xt, t, c), eps))"
  shows "\<exists>bs. noisy_sample (set_x_shape self x0) g x0 = Inr (bs, t, eps, xt)
           \<and> c = cond
           \<and> uncond_mask (set_x_shape self x0) g bs st cond = (st1, Inr ())
           \<and> self1 = set_x_shape self x0"
  using assms
  by (auto simp: loss_args_def Let_def split: sum.splits prod.splits)

lemma noisy_sample_batch:
  assumes "noisy_sample self g x0 = Inr (bs, t, eps, xt)" and "shape x0 = b # ds"
  shows "bs = b"
  using assms
  by (auto simp: noisy_sample_def Let_def split: sum.splits prod.splits)

lemma uncond_mask_frame:
  assumes "uncond_mask self g b st (Some a) = (st', r)"
  shows "length st' = length st \<and> (\<forall>a'. a' \<noteq> a \<longrightarrow> st' ! a' = st ! a')"
  using assms
  by (auto simp: uncond_mask_def Let_def split: if_splits option.splits sum.splits)

lemma append_flag_Inr:
  assumes "append_flag b st cond = Inr (st1, a')"
  shows "\<exists>c. st1 = st @ [c] \<and> a' = length st"
  using assms by (auto simp: append_flag_def split: option.splits sum.splits)

lemma DM_loss_args_frame:
  assumes "a < length st"
  shows "snd (fst (DM_loss_args self st g x0 cond h)) ! a = st ! a"
proof -
  have "st2 ! a = st ! a"
    if "append_flag bs st cond = Inr (st1, a')"
      and "uncond_mask self1 g bs st1 (Some a') = (st2, r)" for bs st1 a' self1 st2 r
  proof -
    from append_flag_Inr [OF that(1)] obtain c where c: "st1 = st @ [c]" "a' = length st"
      by blast
    from uncond_mask_frame [OF that(2)] assms c have "st2 ! a = st1 ! a" by simp
    with c assms show ?thesis by (simp add: nth_append)
  qed
  then show ?thesis
    by (auto simp: DM_loss_args_def Let_def split: sum.splits prod.splits)
qed

text \<open>
  C9: when the predictor uses the conditioning and \<open>DenoiseDiffusion.loss\<close> returns, the
  caller's tensor \<open>cond\<close> (shape \<open>[b, d]\<close>) has been multiplied in place by the mask:
  the rows of the batch elements whose mask bit is 0 hold zeros, the others are
  unchanged, and no other tensor of the store has changed. \<open>DMDenoiseDiffusion.loss\<close>
  leaves the caller's tensor as it was, whatever the call does: it masks the tensor that
  the concatenation has created.
\<close>

theorem cond_masked_in_place:
  "(loss self st g x0 (Some a) = ((self1, st1), Inr v)
      \<and> use_cond (eps_model self) \<and> a < length st
      \<and> shape x0 = b # ds \<and> shape (st ! a) = [b, d]
    \<longrightarrow> length st1 = length st
      \<and> shape (st1 ! a) = [b, d]
      \<and> (\<forall>i j. i < b \<longrightarrow> j < d \<longrightarrow>
            elem (st1 ! a) [i, j] = (if bernoulli_raw g i then elem (st ! a) [i, j] else 0))
      \<and> (\<forall>a'. a' \<noteq> a \<longrightarrow> st1 ! a' = st ! a'))
   \<and> (a < length st \<longrightarrow> snd (fst (DM_loss self st g x0 (Some a) h)) ! a = st ! a)"
proof -
  have base: "length st1 = length st
      \<and> shape (st1 ! a) = [b, d]
      \<and> (\<forall>i j. i < b \<longrightarrow> j < d \<longrightarrow>
            elem (st1 ! a) [i, j] = (if bernoulli_raw g i then elem (st ! a) [i, j] else 0))
      \<and> (\<forall>a'. a' \<noteq> a \<longrightarrow> st1 ! a' = st ! a')"
    if l: "loss self st g x0 (Some a) = ((self1, st1), Inr v)"
      and u: "use_cond (eps_model self)" and a: "a < length st"
      and sx: "shape x0 = b # ds" and sc: "shape (st ! a) = [b, d]"
  proof -
    let ?self = "set_x_shape self x0"
    from call_and_reduce_Inr [OF l [unfolded loss_def]]
    obtain xt t c eps where la:
      "loss_args self st g x0 (Some a) = ((self1, st1), Inr ((xt, t, c), eps))"
      by blast
    from loss_args_Inr [OF la]
    obtain bs where i: "noisy_sample ?self g x0 = Inr (bs, t, eps, xt)"
        "uncond_mask ?self g bs st (Some a) = (st1, Inr ())"
      by blast
    have bs: "bs = b" using noisy_sample_batch [OF i(1) sx] .
    have u': "use_cond (eps_model ?self)" using u by simp
    from uncond_mask_on_dist [OF i(2) u']
    obtain probs where pr: "uncond_mask_dist ?self = Some probs" by auto
    from uncond_mask_on [OF u' pr sc, of g]
    obtain c' where c': "uncond_mask ?self g b st (Some a) = (st[a := c'], Inr ())"
        "shape c' = [b, d]"
        "\<forall>i j. i < b \<longrightarrow> j < d \<longrightarrow>
           elem c' [i, j] = elem (st ! a) [i, j] * (if bernoulli_raw g i then 1 else 0)"
      by blast
    from i(2) c'(1) bs have st1: "st1 = st[a := c']" by simp
    then have "st1 ! a = c'" using a by simp
    with st1 c'(2,3) show ?thesis by auto
  qed
  have dm: "snd (fst (DM_loss self st g x0 (Some a) h)) ! a = st ! a" if "a < length st"
    using DM_loss_args_frame [OF that] by (simp add: DM_loss_def call_and_reduce_state)
  from base dm show ?thesis by blast
qed

lemma ex_loss_returns:
  "\<exists>self1 st1 v. loss ex_proc ex_st ex_g ex_x0 (Some 0) = ((self1, st1), Inr v)"
proof -
  have 1: "shape ex_x0 = 1 # [2]" by (simp add: ex_x0_def)
  have 2: "0 < T ex_proc" "length (alphas_bar ex_proc) = nat (T ex_proc)"
    by (simp_all add: ex_proc_def)
  have 3: "use_cond (eps_model ex_proc) \<longrightarrow>
           uncond_mask_dist ex_proc \<noteq> None \<and> (\<exists>a d. Some 0 = Some a \<and> shape (ex_st ! a) = [1, d])"
    by (simp add: ex_proc_def ex_st_def ex_cond_def)
  from loss_args_ok [OF 1 2 3, of ex_g]
  obtain t xt st1 where a: "loss_args ex_proc ex_st ex_g ex_x0 (Some 0) =
             ((set_x_shape ex_proc ex_x0, st1), Inr ((xt, t, Some 0), randn_like ex_g ex_x0))"
      "shape xt = 1 # [2]"
    by blast
  have f: "forward (eps_model (set_x_shape ex_proc ex_x0)) xt t (map_option ((!) st1) (Some 0)) = Inr xt"
    by (simp add: ex_proc_def ex_model_def)
  have s: "shape xt = shape (randn_like ex_g ex_x0)"
    by (simp add: a(2) randn_like_def ex_x0_def)
  have lt: "loss_type (set_x_shape ex_proc ex_x0) = ''l2''" by (simp add: ex_proc_def)
  show ?thesis
    unfolding loss_def a(1) call_and_reduce_kind [OF f s] lt by simp
qed

theorem cond_masked_in_place_witness:
  "\<exists>self1 st1 v.
     loss ex_proc ex_st ex_g ex_x0 (Some 0) = ((self1, st1), Inr v)
   \<and> use_cond (eps_model ex_proc) \<and> (0::nat) < length ex_st
   \<and> shape ex_x0 = [1, 2] \<and> shape (ex_st ! 0) = [1, 1]
   \<and> elem (ex_st ! 0) [0, 0] = 5 \<and> \<not> bernoulli_raw ex_g 0
   \<and> elem (st1 ! 0) [0, 0] = 0
   \<and> snd (fst (DM_loss ex_proc ex_st ex_g ex_x0 (Some 0) (Some 1))) ! 0 = ex_st ! 0"
proof -
  from ex_loss_returns obtain self1 st1 v where
    l: "loss ex_proc ex_st ex_g ex_x0 (Some 0) = ((self1, st1), Inr v)"
    by blast
  have h: "use_cond (eps_model ex_proc)" "(0::nat) < length ex_st"
      "shape ex_x0 = [1, 2]" "shape (ex_st ! 0) = [1, 1]"
      "elem (ex_st ! 0) [0, 0] = 5" "\<not> bernoulli_raw ex_g 0"
    by (simp_all add: ex_proc_def ex_model_def ex_st_def ex_x0_def ex_cond_def ex_g_def)
  note k = cond_masked_in_place [of ex_proc ex_st ex_g ex_x0 0 self1 st1 v 1 "[2]" 1 "Some 1"]
  from k l h have "elem (st1 ! 0) [0, 0] = 0" by simp
  moreover from k h(2)
  have "snd (fst (DM_loss ex_proc ex_st ex_g ex_x0 (Some 0) (Some 1))) ! 0 = ex_st ! 0"
    by simp
  ultimately show ?thesis using l h by blast
qed

section \<open>An absent conditioning\<close>

lemma loss_args_None:
  assumes "use_cond (eps_model self)"
  shows "\<exists>e. loss_args self st g x0 None = ((set_x_shape self x0, st), Inl e)"
  using assms
  by (auto simp: loss_args_def uncond_mask_def Let_def split: sum.splits prod.splits option.splits)

lemma DM_loss_args_None:
  "\<exists>e. DM_loss_args self st g x0 None h = ((set_x_shape self x0, st), Inl e)"
  by (auto simp: DM_loss_args_def append_flag_def Let_def split: sum.splits prod.splits)

text \<open>
  C10: with \<open>cond = None\<close>, \<open>DenoiseDiffusion.loss\<close> raises before it calls the
  predictor whenever the predictor uses the conditioning, and
  \<open>DMDenoiseDiffusion.loss\<close> raises before it calls the predictor on every call. On a
  well-formed call the error is the \<open>TypeError\<close> of the in-place multiplication
  (base variant) or of the concatenation (trajectory variant).
\<close>

theorem cond_None_fails:
  "(use_cond (eps_model self) \<longrightarrow>
      (\<exists>w e. loss_args self st g x0 None = (w, Inl e) \<and> loss self st g x0 None = (w, Inl e)))
   \<and> (\<exists>w e. DM_loss_args self st g x0 None h = (w, Inl e)
            \<and> DM_loss self st g x0 None h = (w, Inl e))
   \<and> (use_cond (eps_model self) \<and> uncond_mask_dist self \<noteq> None \<and> shape x0 = b # ds
        \<and> 0 < T self \<and> length (alphas_bar self) = nat (T self)
      \<longrightarrow> snd (loss self st g x0 None) = Inl TypeError)
   \<and> (shape x0 = b # l # ds' \<and> 0 < T self \<and> length (alphas_bar self) = nat (T self)
      \<longrightarrow> snd (DM_loss self st g x0 None h) = Inl TypeError)"
proof -
  let ?self = "set_x_shape self x0"
  have a: "\<exists>w e. loss_args self st g x0 None = (w, Inl e) \<and> loss self st g x0 None = (w, Inl e)"
    if "use_cond (eps_model self)"
    using loss_args_None [OF that, of st g x0] by (auto simp: loss_def call_and_reduce_Inl)
  have b: "\<exists>w e. DM_loss_args self st g x0 None h = (w, Inl e)
            \<and> DM_loss self st g x0 None h = (w, Inl e)"
    using DM_loss_args_None [of self st g x0 h] by (auto simp: DM_loss_def call_and_reduce_Inl)
  have c: "snd (loss self st g x0 None) = Inl TypeError"
    if "use_cond (eps_model self)" "uncond_mask_dist self \<noteq> None" "shape x0 = b # ds"
      "0 < T self" "length (alphas_bar self) = nat (T self)"
  proof -
    have T1: "0 < T ?self" "length (alphas_bar ?self) = nat (T ?self)"
      using that(4,5) by simp_all
    from noisy_sample_ok [OF that(3) T1, of g]
    obtain t xt where ns: "noisy_sample ?self g x0 = Inr (b, t, randn_like g x0, xt)"
      by blast
    have "loss_args self st g x0 None = ((?self, st), Inl TypeError)"
      using that(1,2) by (auto simp: loss_args_def Let_def ns uncond_mask_def)
    then show ?thesis by (simp add: loss_def call_and_reduce_Inl)
  qed
  have d: "snd (DM_loss self st g x0 None h) = Inl TypeError"
    if "shape x0 = b # l # ds'" "0 < T self" "length (alphas_bar self) = nat (T self)"
  proof -
    have T1: "0 < T ?self" "length (alphas_bar ?self) = nat (T ?self)"
      using that(2,3) by simp_all
    from noisy_sample_ok [OF that(1) T1, of g]
    obtain t xt0 where ns: "noisy_sample ?self g x0 = Inr (b, t, randn_like g x0, xt0)"
        "shape xt0 = b # l # ds'"
      by blast
    from assign_prefix_ok [OF ns(2) that(1), of h]
    obtain xt where xt: "assign_prefix xt0 x0 h = Inr xt" by blast
    have "DM_loss_args self st g x0 None h = ((?self, st), Inl TypeError)"
      by (simp add: DM_loss_args_def Let_def ns(1) xt append_flag_def)
    then show ?thesis by (simp add: DM_loss_def call_and_reduce_Inl)
  qed
  from a b c d show ?thesis by blast
qed

theorem cond_None_fails_witness:
  "use_cond (eps_model ex_proc) \<and> uncond_mask_dist ex_proc \<noteq> None \<and> shape ex_x0 = [1, 2]
   \<and> 0 < T ex_proc \<and> length (alphas_bar ex_proc) = nat (T ex_proc)
   \<and> snd (loss ex_proc ex_st ex_g ex_x0 None) = Inl TypeError
   \<and> snd (DM_loss ex_proc ex_st ex_g ex_x0 None (Some 1)) = Inl TypeError
   \<and> snd (DM_loss ex_proc_nc ex_st ex_g ex_x0 None (Some 1)) = Inl TypeError"
proof -
  have h: "use_cond (eps_model ex_proc)" "uncond_mask_dist ex_proc \<noteq> None"
      "shape ex_x0 = [1, 2]" "0 < T ex_proc" "length (alphas_bar ex_proc) = nat (T ex_proc)"
    by (simp_all add: ex_proc_def ex_model_def ex_x0_def)
  have h': "0 < T ex_proc_nc" "length (alphas_bar ex_proc_nc) = nat (T ex_proc_nc)"
    by (simp_all add: ex_proc_nc_def ex_proc_def)
  from cond_None_fails [of ex_proc ex_st ex_g ex_x0 "Some 1" 1 "[2]" 2 "[]"] h
  have "snd (loss ex_proc ex_st ex_g ex_x0 None) = Inl TypeError"
    "snd (DM_loss ex_proc ex_st ex_g ex_x0 None (Some 1)) = Inl TypeError"
    by simp_all
  moreover from cond_None_fails [of ex_proc_nc ex_st ex_g ex_x0 "Some 1" 1 "[2]" 2 "[]"] h(3) h'
  have "snd (DM_loss ex_proc_nc ex_st ex_g ex_x0 None (Some 1)) = Inl TypeError"
    by simp
  ultimately show ?thesis using h by simp
qed

section \<open>A predictor that does not use the conditioning\<close>

lemma loss_ignores_cond:
  assumes "\<not> use_cond (eps_model self)"
  shows "loss_args self st g x0 cond =
           ((set_x_shape self x0, st),
            case noisy_sample (set_x_shape self x0) g x0 of
              Inl e \<Rightarrow> Inl e
            | Inr (bs, t, eps, xt) \<Rightarrow> Inr ((xt, t, cond), eps))"
  using assms
  by (auto simp: loss_args_def Let_def uncond_mask_off split: sum.splits prod.splits)

lemma torch_randint_no_dropout:
  "torch_randint (g\<lparr>bernoulli_raw := k\<rparr>) high n = torch_randint g high n"
  by (simp add: torch_randint_def)

lemma randn_like_no_dropout: "randn_like (g\<lparr>bernoulli_raw := k\<rparr>) x = randn_like g x"
  by (simp add: randn_like_def)

lemma noisy_sample_no_dropout:
  "noisy_sample self (g\<lparr>bernoulli_raw := k\<rparr>) x0 = noisy_sample self g x0"
  unfolding noisy_sample_def torch_randint_no_dropout randn_like_no_dropout ..

lemma loss_no_dropout:
  assumes "\<not> use_cond (eps_model self)"
  shows "loss self st (g\<lparr>bernoulli_raw := k\<rparr>) x0 cond = loss self st g x0 cond"
proof -
  have um: "uncond_mask (set_x_shape self x0) g' b st' c = (st', Inr ())" for g' b st' c
    using assms by (simp add: uncond_mask_off)
  show ?thesis
    unfolding loss_def loss_args_def Let_def noisy_sample_no_dropout um ..
qed

lemma DM_loss_no_dropout:
  assumes "\<not> use_cond (eps_model self)"
  shows "DM_loss self st (g\<lparr>bernoulli_raw := k\<rparr>) x0 cond h = DM_loss self st g x0 cond h"
proof -
  have um: "uncond_mask (set_x_shape self x0) g' b st' c = (st', Inr ())" for g' b st' c
    using assms by (simp add: uncond_mask_off)
  show ?thesis
    unfolding DM_loss_def DM_loss_args_def Let_def noisy_sample_no_dropout um ..
qed

text \<open>
  C5 at a failing input: the predictor does not use the conditioning, and
  \<open>DMDenoiseDiffusion.loss\<close> with \<open>cond = None\<close> raises \<open>TypeError\<close>, while the same
  call with a conditioning tensor returns a loss. The base variant does not read
  \<open>cond\<close> (\<open>loss_ignores_cond\<close>), and neither variant draws the mask
  (\<open>loss_no_dropout\<close>, \<open>DM_loss_no_dropout\<close>).
\<close>

theorem DM_loss_requires_cond:
  "\<not> use_cond (eps_model ex_proc_nc)
   \<and> snd (DM_loss ex_proc_nc ex_st ex_g ex_x0 None (Some 1)) = Inl TypeError
   \<and> (\<exists>v. snd (DM_loss ex_proc_nc ex_st ex_g ex_x0 (Some 0) (Some 1)) = Inr v)"
proof -
  have u: "\<not> use_cond (eps_model ex_proc_nc)" by (simp add: ex_proc_nc_def)
  have 1: "shape ex_x0 = 1 # 2 # []" by (simp add: ex_x0_def)
  have 2: "0 < T ex_proc_nc" "length (alphas_bar ex_proc_nc) = nat (T ex_proc_nc)"
    by (simp_all add: ex_proc_nc_def ex_proc_def)
  have 3: "shape (ex_st ! 0) = [1, 1]" by (simp add: ex_st_def ex_cond_def)
  have 4: "use_cond (eps_model ex_proc_nc) \<longrightarrow> uncond_mask_dist ex_proc_nc \<noteq> None"
    using u by simp
  let ?self = "set_x_shape ex_proc_nc ex_x0"
  from DM_loss_args_ok [OF 1 2 3 4, of ex_g "Some 1"]
  obtain t xt0 xt c' where r:
      "noisy_sample ?self ex_g ex_x0 = Inr (1, t, randn_like ex_g ex_x0, xt0)"
      "DM_loss_args ex_proc_nc ex_st ex_g ex_x0 (Some 0) (Some 1) =
         ((?self, ex_st @ [c']), Inr ((xt, t, Some (length ex_st)), randn_like ex_g ex_x0))"
      "shape xt = [1, 2]"
    by blast
  have T1: "0 < T ?self" "length (alphas_bar ?self) = nat (T ?self)"
    using 2 by simp_all
  from noisy_sample_ok [OF 1 T1, of ex_g] r(1)
  have sx: "shape xt0 = 1 # 2 # []" by auto
  have f: "forward (eps_model ?self) xt t (map_option ((!) (ex_st @ [c'])) (Some (length ex_st))) = Inr xt"
    by (simp add: ex_proc_nc_def ex_model_def)
  have s: "shape xt = shape (randn_like ex_g ex_x0)"
    by (simp add: r(3) randn_like_def ex_x0_def)
  have lt: "loss_type ?self = ''l2''" by (simp add: ex_proc_nc_def ex_proc_def)
  have ok: "\<exists>v. snd (DM_loss ex_proc_nc ex_st ex_g ex_x0 (Some 0) (Some 1)) = Inr v"
    unfolding DM_loss_def r(2) call_and_reduce_kind [OF f s] lt by simp
  from assign_prefix_ok [OF sx 1, of "Some 1"]
  obtain xt' where xt': "assign_prefix xt0 ex_x0 (Some 1) = Inr xt'" by blast
  have "DM_loss_args ex_proc_nc ex_st ex_g ex_x0 None (Some 1) = ((?self, ex_st), Inl TypeError)"
    by (simp add: DM_loss_args_def Let_def r(1) xt' append_flag_def)
  then have bad: "snd (DM_loss ex_proc_nc ex_st ex_g ex_x0 None (Some 1)) = Inl TypeError"
    by (simp add: DM_loss_def call_and_reduce_Inl)
  from u bad ok show ?thesis by blast
qed

end
